theory Spec2Isabelle
  imports Complex_Main
begin

section \<open>The API client: \<^verbatim>\<open>src/api/client.js\<close>\<close>

subsection \<open>Errors\<close>

text \<open>
  The \<^verbatim>\<open>ErrorType\<close> table of the module. The constructors carry the keys of the
  JavaScript object; the string behind \<^verbatim>\<open>AUTH\<close> is \<^verbatim>\<open>'authentication'\<close>.
\<close>

datatype ErrorType =
  NETWORK | TIMEOUT | SERVER | AUTH | VALIDATION | NOT_FOUND | CANCELED | UNKNOWN

text \<open>
  A JavaScript exception that is not an \<^verbatim>\<open>ApiError\<close>: an object, of which the two
  properties the handlers read are kept. A missing \<^verbatim>\<open>message\<close> is the empty string (both
  are falsy).
\<close>

record js_exn =
  name :: string
  message :: string

text \<open>
  A parsed body. \<open>Json m\<close> is a parsed JSON value whose \<^verbatim>\<open>message\<close> property is
  \<open>m\<close> (\<open>None\<close> when it has none); \<open>RawResponse\<close> is the \<^verbatim>\<open>Response\<close> object
  itself, \<open>Null\<close> is \<^verbatim>\<open>null\<close>, \<open>OriginalError\<close> is the object
  \<^verbatim>\<open>{ originalError: error }\<close>.
\<close>

datatype payload =
  Json "string option" | Text string | Blob | RawResponse | Null | OriginalError js_exn

text \<open>The class \<^verbatim>\<open>ApiError\<close> of \<^verbatim>\<open>client.js\<close>: message, type, statusCode, data.\<close>

record ApiError =
  errorMessage :: string
  type :: ErrorType
  statusCode :: int
  data :: payload

text \<open>\<^verbatim>\<open>mapStatusToErrorType(statusCode)\<close>, lines 68 to 74.\<close>

definition mapStatusToErrorType :: "int \<Rightarrow> ErrorType" where
  "mapStatusToErrorType sc =
     (if sc \<ge> 500 then SERVER
      else if sc = 401 \<or> sc = 403 then AUTH
      else if sc = 404 then NOT_FOUND
      else if sc = 422 then VALIDATION
      else UNKNOWN)"

text \<open>\<^verbatim>\<open>shouldRetry(error, retryCount, maxRetries)\<close>, lines 83 to 102.\<close>

definition shouldRetry :: "ApiError \<Rightarrow> int \<Rightarrow> int \<Rightarrow> bool" where
  "shouldRetry error retryCount maxRetries =
     (if retryCount \<ge> maxRetries then False
      else if type error = AUTH \<or> type error = VALIDATION \<or> type error = CANCELED then False
      else (type error = NETWORK \<or> type error = TIMEOUT \<or>
            (type error = SERVER \<and> statusCode error \<ge> 500)))"

text \<open>
  \<^verbatim>\<open>getRetryDelay(retryCount)\<close>, lines 109 to 122. JavaScript numbers are IEEE doubles:
  an operation returns its exact result rounded to the nearest double. The rounding is the
  first argument, \<open>fl\<close>; for doubles it has \<open>\<bar>fl x - x\<bar> \<le> \<bar>x\<bar> / 2 ^ 53 + 1 / 2 ^ 1075\<close>
  on the magnitudes that occur here. The last argument is the value of \<^verbatim>\<open>Math.random()\<close>, a
  number in \<open>[0, 1)\<close>. The literal \<^verbatim>\<open>0.2\<close> is the double \<open>fl 0.2\<close>; \<^verbatim>\<open>0.5\<close> is a double.
  For a retry count \<open>n\<close>, \<^verbatim>\<open>Math.pow(2, n)\<close> and its product with 300 are doubles as long as
  they are finite, and are above 3000 when they are not, so that \<^verbatim>\<open>exponentialDelay\<close> is
  \<open>min 3000 (300 * 2 ^ n)\<close> without rounding.
\<close>

definition getRetryDelay :: "(real \<Rightarrow> real) \<Rightarrow> nat \<Rightarrow> real \<Rightarrow> real" where
  "getRetryDelay fl retryCount random =
     (let baseDelay = 300;
          maxDelay = 3000;
          exponentialDelay = min maxDelay (baseDelay * 2 ^ retryCount);
          jitter = fl (fl (exponentialDelay * fl 0.2) * fl (random - 0.5))
      in fl (exponentialDelay + jitter))"

text \<open>Arithmetic that does not round, as an instance of the rounding.\<close>

definition exact :: "real \<Rightarrow> real" where
  "exact x = x"


subsection \<open>Responses and body parsing\<close>

text \<open>
  What the code reads of a \<^verbatim>\<open>Response\<close>: the status, the status text, the value of the
  content-type header (\<open>None\<close> when \<^verbatim>\<open>headers.get\<close> returns \<^verbatim>\<open>null\<close>), and what each
  of \<^verbatim>\<open>json()\<close>, \<^verbatim>\<open>text()\<close> and \<^verbatim>\<open>blob()\<close> settles to: \<open>Inl\<close> the exception of a
  rejected promise, \<open>Inr\<close> the parsed body.
\<close>

record response =
  status :: int
  statusText :: string
  contentType :: "string option"
  jsonBody :: "js_exn + payload"
  textBody :: "js_exn + payload"
  blobBody :: "js_exn + payload"

text \<open>\<^verbatim>\<open>response.ok\<close>: the status is in the range 200 to 299.\<close>

definition ok :: "response \<Rightarrow> bool" where
  "ok r = (200 \<le> status r \<and> status r \<le> 299)"

text \<open>\<^verbatim>\<open>String.prototype.startsWith\<close> and \<^verbatim>\<open>String.prototype.includes\<close>
  (\<open>includes\<close> is a keyword of Isabelle, hence the suffix).\<close>

fun startsWith :: "string \<Rightarrow> string \<Rightarrow> bool" where
  "startsWith s [] = True"
| "startsWith [] (c # cs) = False"
| "startsWith (x # xs) (c # cs) = (x = c \<and> startsWith xs cs)"

fun includes_str :: "string \<Rightarrow> string \<Rightarrow> bool" where
  "includes_str [] t = (t = [])"
| "includes_str (x # xs) t = (startsWith (x # xs) t \<or> includes_str xs t)"

text \<open>
  The body parsing of \<^verbatim>\<open>executeRequest\<close>, lines 227 to 234: JSON when the content type is
  present and includes \<^verbatim>\<open>application/json\<close>, text otherwise.
\<close>

definition parseResponse :: "response \<Rightarrow> js_exn + payload" where
  "parseResponse r =
     (case contentType r of
        None \<Rightarrow> textBody r
      | Some ct \<Rightarrow>
          if ct \<noteq> [] \<and> includes_str ct ''application/json'' then jsonBody r else textBody r)"

text \<open>\<^verbatim>\<open>data?.message\<close>, the empty string standing for \<^verbatim>\<open>undefined\<close>.\<close>

fun payloadMessage :: "payload \<Rightarrow> string" where
  "payloadMessage (Json (Some m)) = m"
| "payloadMessage d = []"

text \<open>\<^verbatim>\<open>a || b\<close> on strings: the empty string is falsy.\<close>

definition orElse :: "string \<Rightarrow> string \<Rightarrow> string" where
  "orElse a b = (if a \<noteq> [] then a else b)"

subsection \<open>\<^verbatim>\<open>apiRequest\<close> and its retry loop\<close>

text \<open>
  A value that a \<^verbatim>\<open>try\<close> block throws and the caller of \<^verbatim>\<open>apiRequest\<close> may receive:
  an instance of \<^verbatim>\<open>ApiError\<close>, or any other exception.
\<close>

datatype thrown = ThrownApiError ApiError | ThrownExn js_exn

text \<open>\<^verbatim>\<open>error.name\<close>: the constructor of \<^verbatim>\<open>ApiError\<close> sets it to \<^verbatim>\<open>'ApiError'\<close>.\<close>

fun thrownName :: "thrown \<Rightarrow> string" where
  "thrownName (ThrownApiError e) = ''ApiError''"
| "thrownName (ThrownExn x) = name x"

fun thrownMessage :: "thrown \<Rightarrow> string" where
  "thrownMessage (ThrownApiError e) = errorMessage e"
| "thrownMessage (ThrownExn x) = message x"

text \<open>How one call of \<^verbatim>\<open>fetch\<close> settles.\<close>

datatype fetch_outcome = Rejects js_exn | Resolves response

text \<open>The value \<^verbatim>\<open>executeRequest\<close> returns on success: the data and the status code.\<close>

record api_success =
  successData :: payload
  successStatusCode :: int

text \<open>
  The \<^verbatim>\<open>try\<close> block of \<^verbatim>\<open>executeRequest\<close>, lines 197 to 261, given how the call of
  \<^verbatim>\<open>fetch\<close> settles: \<open>Inl\<close> what the block throws, \<open>Inr\<close> what it returns.
\<close>

definition tryRequest :: "fetch_outcome \<Rightarrow> thrown + api_success" where
  "tryRequest outcome =
     (case outcome of
        Rejects x \<Rightarrow> Inl (ThrownExn x)
      | Resolves r \<Rightarrow>
          (case parseResponse r of
             Inl x \<Rightarrow> Inl (ThrownExn x)
           | Inr d \<Rightarrow>
               if \<not> ok r then
                 Inl (ThrownApiError
                   \<lparr>errorMessage =
                      orElse (payloadMessage d) (orElse (statusText r) ''API request failed''),
                    type = mapStatusToErrorType (status r),
                    statusCode = status r,
                    data = d\<rparr>)
               else Inr \<lparr>successData = d, successStatusCode = status r\<rparr>))"

text \<open>The \<^verbatim>\<open>ApiError\<close> built for an abort, lines 268 to 277.\<close>

definition abortError :: "thrown \<Rightarrow> ApiError" where
  "abortError error =
     (let isTimeout = (thrownMessage error = ''timeout'');
          errorType = (if isTimeout then TIMEOUT else CANCELED);
          msg = (if isTimeout then ''Request timed out'' else ''Request canceled'')
      in \<lparr>errorMessage = msg, type = errorType, statusCode = 0,
          data = OriginalError \<lparr>name = thrownName error, message = thrownMessage error\<rparr>\<rparr>)"

text \<open>The \<^verbatim>\<open>ApiError\<close> built for any other exception, lines 306 to 311.\<close>

definition networkError :: "js_exn \<Rightarrow> ApiError" where
  "networkError error =
     \<lparr>errorMessage = orElse (message error) ''Network error'', type = NETWORK,
      statusCode = 0, data = OriginalError error\<rparr>"

text \<open>
  \<^verbatim>\<open>executeRequest\<close>, lines 196 to 337. \<open>fetch k\<close> is how the call of \<^verbatim>\<open>fetch\<close> settles
  when \<^verbatim>\<open>currentRetry\<close> is \<open>k\<close>; the waiting between two attempts changes no value and is
  left out. \<open>Inl\<close> is the value thrown to the caller.
\<close>

function executeRequest :: "(nat \<Rightarrow> fetch_outcome) \<Rightarrow> int \<Rightarrow> nat \<Rightarrow> thrown + api_success" where
  "executeRequest fetch retries currentRetry =
     (case tryRequest (fetch currentRetry) of
        Inr result \<Rightarrow> Inr result
      | Inl error \<Rightarrow>
          if thrownName error = ''AbortError'' then Inl (ThrownApiError (abortError error))
          else
            (case error of
               ThrownApiError e \<Rightarrow>
                 if shouldRetry e (int currentRetry) retries
                 then executeRequest fetch retries (currentRetry + 1)
                 else Inl (ThrownApiError e)
             | ThrownExn x \<Rightarrow>
                 if shouldRetry (networkError x) (int currentRetry) retries
                 then executeRequest fetch retries (currentRetry + 1)
                 else Inl (ThrownApiError (networkError x))))"
  by pat_completeness auto
termination
  by (relation "measure (\<lambda>(fetch, retries, currentRetry). nat (retries - int currentRetry))")
     (auto simp add: shouldRetry_def split: if_splits)

declare executeRequest.simps [simp del]

text \<open>\<^verbatim>\<open>apiRequest\<close>: the retry count starts at 0.\<close>

definition apiRequest :: "(nat \<Rightarrow> fetch_outcome) \<Rightarrow> int \<Rightarrow> thrown + api_success" where
  "apiRequest fetch retries = executeRequest fetch retries 0"


subsection \<open>The abort signal of \<^verbatim>\<open>apiRequest\<close>\<close>

text \<open>
  An \<^verbatim>\<open>AbortSignal\<close>: that of the controller \<^verbatim>\<open>apiRequest\<close> creates (line 187), or the one
  the caller passed in \<^verbatim>\<open>options.signal\<close>.
\<close>

datatype 'h signal_ref = ControllerSignal | CallerSignal 'h

text \<open>\<^verbatim>\<open>const requestSignal = signal || controller.signal\<close>, line 188; it is the signal
  given to \<^verbatim>\<open>fetch\<close> (line 220).\<close>

definition requestSignal :: "'h option \<Rightarrow> 'h signal_ref" where
  "requestSignal signal = (case signal of Some h \<Rightarrow> CallerSignal h | None \<Rightarrow> ControllerSignal)"

text \<open>
  The two abort sources: the timer of lines 191 to 193 elapses, or the caller aborts the
  handle \<open>h\<close>. The timer's callback is \<^verbatim>\<open>controller.abort('timeout')\<close>, so it aborts the
  controller's signal; the caller aborts the signal of the handle.
\<close>

datatype 'h abort_source = TimeoutElapsed | CallerAborts 'h

fun abortedSignal :: "'h abort_source \<Rightarrow> 'h signal_ref" where
  "abortedSignal TimeoutElapsed = ControllerSignal"
| "abortedSignal (CallerAborts h) = CallerSignal h"

text \<open>A pending \<^verbatim>\<open>fetch\<close> is aborted when the signal it was given is aborted.\<close>

definition abortsFetch :: "'h abort_source \<Rightarrow> 'h signal_ref \<Rightarrow> bool" where
  "abortsFetch source fetchSignal = (abortedSignal source = fetchSignal)"


section \<open>The HTTP client with interceptors: \<^verbatim>\<open>src/utils/http.js\<close>\<close>

subsection \<open>The interceptor registries\<close>

text \<open>
  The three arrays of the module. The type parameters stand for the interceptor functions,
  which \<^verbatim>\<open>indexOf\<close> compares by identity.
\<close>

record ('q, 'r, 'e) registries =
  requestInterceptors :: "'q list"
  responseInterceptors :: "'r list"
  errorInterceptors :: "'e list"

text \<open>\<^verbatim>\<open>Array.prototype.indexOf\<close>: the index of the first occurrence, or \<open>-1\<close>.\<close>

fun indexOf :: "'a list \<Rightarrow> 'a \<Rightarrow> int" where
  "indexOf [] x = - 1"
| "indexOf (y # ys) x =
     (if y = x then 0 else (let i = indexOf ys x in if i = - 1 then - 1 else i + 1))"

text \<open>The array after \<^verbatim>\<open>splice(start, deleteCount)\<close>, for \<open>start\<close> within the array
  (\<open>splice\<close> is a list function of HOL, hence the suffix).\<close>

definition splice_js :: "'a list \<Rightarrow> nat \<Rightarrow> nat \<Rightarrow> 'a list" where
  "splice_js xs start deleteCount = take start xs @ drop (start + deleteCount) xs"

text \<open>
  \<^verbatim>\<open>addRequestInterceptor\<close>, lines 52 to 61, and the function it returns; the same for the
  two other registries, lines 68 to 93.
\<close>

definition removeRequestInterceptor ::
  "'q \<Rightarrow> ('q, 'r, 'e) registries \<Rightarrow> ('q, 'r, 'e) registries" where
  "removeRequestInterceptor interceptor regs =
     (let index = indexOf (requestInterceptors regs) interceptor
      in if index \<noteq> - 1
         then regs\<lparr>requestInterceptors := splice_js (requestInterceptors regs) (nat index) 1\<rparr>
         else regs)"

definition addRequestInterceptor ::
  "'q \<Rightarrow> ('q, 'r, 'e) registries
     \<Rightarrow> ('q, 'r, 'e) registries \<times> (('q, 'r, 'e) registries \<Rightarrow> ('q, 'r, 'e) registries)" where
  "addRequestInterceptor interceptor regs =
     (regs\<lparr>requestInterceptors := requestInterceptors regs @ [interceptor]\<rparr>,
      removeRequestInterceptor interceptor)"

definition removeResponseInterceptor ::
  "'r \<Rightarrow> ('q, 'r, 'e) registries \<Rightarrow> ('q, 'r, 'e) registries" where
  "removeResponseInterceptor interceptor regs =
     (let index = indexOf (responseInterceptors regs) interceptor
      in if index \<noteq> - 1
         then regs\<lparr>responseInterceptors := splice_js (responseInterceptors regs) (nat index) 1\<rparr>
         else regs)"

definition addResponseInterceptor ::
  "'r \<Rightarrow> ('q, 'r, 'e) registries
     \<Rightarrow> ('q, 'r, 'e) registries \<times> (('q, 'r, 'e) registries \<Rightarrow> ('q, 'r, 'e) registries)" where
  "addResponseInterceptor interceptor regs =
     (regs\<lparr>responseInterceptors := responseInterceptors regs @ [interceptor]\<rparr>,
      removeResponseInterceptor interceptor)"

definition removeErrorInterceptor ::
  "'e \<Rightarrow> ('q, 'r, 'e) registries \<Rightarrow> ('q, 'r, 'e) registries" where
  "removeErrorInterceptor interceptor regs =
     (let index = indexOf (errorInterceptors regs) interceptor
      in if index \<noteq> - 1
         then regs\<lparr>errorInterceptors := splice_js (errorInterceptors regs) (nat index) 1\<rparr>
         else regs)"

definition addErrorInterceptor ::
  "'e \<Rightarrow> ('q, 'r, 'e) registries
     \<Rightarrow> ('q, 'r, 'e) registries \<times> (('q, 'r, 'e) registries \<Rightarrow> ('q, 'r, 'e) registries)" where
  "addErrorInterceptor interceptor regs =
     (regs\<lparr>errorInterceptors := errorInterceptors regs @ [interceptor]\<rparr>,
      removeErrorInterceptor interceptor)"

subsection \<open>Errors and messages\<close>

text \<open>
  The class \<^verbatim>\<open>ApiError\<close> of \<^verbatim>\<open>http.js\<close>: message, status, data, originalError. It has
  no kind. The names are prefixed, the plain ones being taken by the records above.
\<close>

record HttpApiError =
  apiMessage :: string
  apiStatus :: int
  apiData :: payload
  originalError :: "js_exn option"

text \<open>
  A value thrown in \<^verbatim>\<open>http.js\<close>: an \<^verbatim>\<open>ApiError\<close> of this module, or another
  \<^verbatim>\<open>Error\<close> object. The variable \<^verbatim>\<open>lastError\<close> is \<^verbatim>\<open>undefined\<close> until it is assigned:
  it has the type \<open>http_thrown option\<close>, \<open>None\<close> being \<^verbatim>\<open>undefined\<close>.
\<close>

datatype http_thrown = HttpError HttpApiError | Exn js_exn

fun httpName :: "http_thrown \<Rightarrow> string" where
  "httpName (HttpError e) = ''ApiError''"
| "httpName (Exn x) = name x"

fun httpMessage :: "http_thrown \<Rightarrow> string" where
  "httpMessage (HttpError e) = apiMessage e"
| "httpMessage (Exn x) = message x"

text \<open>The table \<^verbatim>\<open>ERROR_MESSAGES\<close>, lines 23 to 36.\<close>

definition ERROR_MESSAGES :: "int \<Rightarrow> string option" where
  "ERROR_MESSAGES = map_of
     [(400, ''The request was invalid''),
      (401, ''Authentication required''),
      (403, ''You do not have permission to access this resource''),
      (404, ''The requested resource was not found''),
      (408, ''The request timed out''),
      (409, ''The request conflicted with another request''),
      (422, ''Validation error''),
      (429, ''Too many requests - please try again later''),
      (500, ''An error occurred on the server''),
      (502, ''Bad gateway''),
      (503, ''Service unavailable - please try again later''),
      (504, ''Gateway timeout'')]"

text \<open>A number in a template literal: its decimal digits.\<close>

fun decimal :: "nat \<Rightarrow> string" where
  "decimal n =
     (if n < 10 then [char_of (48 + n)] else decimal (n div 10) @ [char_of (48 + n mod 10)])"

declare decimal.simps [simp del]

definition showInt :: "int \<Rightarrow> string" where
  "showInt i = (if i < 0 then CHR ''-'' # decimal (nat (- i)) else decimal (nat i))"

subsection \<open>Response processing\<close>

text \<open>\<^verbatim>\<open>processResponse\<close>, lines 113 to 130.\<close>

definition processResponse :: "response \<Rightarrow> js_exn + payload" where
  "processResponse r =
     (let ct = (case contentType r of None \<Rightarrow> [] | Some c \<Rightarrow> c)
      in if includes_str ct ''application/json'' then jsonBody r
         else if includes_str ct ''text/plain'' \<or> includes_str ct ''text/html'' then textBody r
         else if includes_str ct ''application/octet-stream'' then blobBody r
         else Inr RawResponse)"


subsection \<open>Interceptor chains\<close>

text \<open>
  The object handed to the response interceptors, line 263: data, status, and the headers
  of the response, of which the content type is kept.
\<close>

record envelope =
  envData :: payload
  envStatus :: int
  envHeaders :: "string option"

text \<open>
  An interceptor is a function that returns (\<open>Inr\<close>) or throws an \<^verbatim>\<open>Error\<close> object
  (\<open>Inl\<close>). An error interceptor returns \<^verbatim>\<open>null\<close>, an \<^verbatim>\<open>Error\<close> object, or a value that
  is neither (\<^verbatim>\<open>undefined\<close>, say).
\<close>

datatype interceptor_result = ReturnsNull | ReturnsError http_thrown | ReturnsOther

type_synonym 'c request_interceptor = "'c \<Rightarrow> http_thrown + 'c"
type_synonym response_interceptor = "envelope \<Rightarrow> http_thrown + envelope"
type_synonym error_interceptor = "http_thrown option \<Rightarrow> http_thrown + interceptor_result"

text \<open>
  \<^verbatim>\<open>applyRequestInterceptors\<close>, lines 137 to 142, on the content of the array: a
  \<^verbatim>\<open>reduce\<close> with no handler, so that what an interceptor throws leaves the function.
\<close>

fun applyRequestInterceptors :: "'c request_interceptor list \<Rightarrow> 'c \<Rightarrow> http_thrown + 'c" where
  "applyRequestInterceptors [] config = Inr config"
| "applyRequestInterceptors (interceptor # rest) currentConfig =
     (case interceptor currentConfig of
        Inl thrownError \<Rightarrow> Inl thrownError
      | Inr nextConfig \<Rightarrow> applyRequestInterceptors rest nextConfig)"

text \<open>\<^verbatim>\<open>applyResponseInterceptors\<close>, lines 149 to 154: the same \<^verbatim>\<open>reduce\<close>.\<close>

fun applyResponseInterceptors :: "response_interceptor list \<Rightarrow> envelope \<Rightarrow> http_thrown + envelope" where
  "applyResponseInterceptors [] response = Inr response"
| "applyResponseInterceptors (interceptor # rest) currentResponse =
     (case interceptor currentResponse of
        Inl thrownError \<Rightarrow> Inl thrownError
      | Inr nextResponse \<Rightarrow> applyResponseInterceptors rest nextResponse)"

text \<open>
  What \<^verbatim>\<open>applyErrorInterceptors\<close> does: it returns \<^verbatim>\<open>null\<close> (\<open>Handled\<close>), it returns
  \<^verbatim>\<open>currentError\<close> (\<open>Unhandled\<close>), or it throws.
\<close>

datatype chain_result = Handled | Unhandled "http_thrown option" | ChainThrew http_thrown

text \<open>
  The \<^verbatim>\<open>for\<close> loop of \<^verbatim>\<open>applyErrorInterceptors\<close>, lines 164 to 185. The last argument
  records the calls: the argument of each interceptor invoked so far, in order. What an
  interceptor throws is caught and logged; the logging reads \<^verbatim>\<open>error.message\<close>, which
  throws a \<^verbatim>\<open>TypeError\<close> when \<^verbatim>\<open>error\<close> is \<^verbatim>\<open>undefined\<close>.
\<close>

fun errorInterceptorLoop ::
  "http_thrown option \<Rightarrow> error_interceptor list \<Rightarrow> http_thrown option
     \<Rightarrow> http_thrown option list \<Rightarrow> chain_result \<times> http_thrown option list" where
  "errorInterceptorLoop error [] currentError calls = (Unhandled currentError, calls)"
| "errorInterceptorLoop error (interceptor # rest) currentError calls =
     (case interceptor currentError of
        Inr ReturnsNull \<Rightarrow> (Handled, calls @ [currentError])
      | Inr (ReturnsError newError) \<Rightarrow>
          errorInterceptorLoop error rest (Some newError) (calls @ [currentError])
      | Inr ReturnsOther \<Rightarrow>
          errorInterceptorLoop error rest currentError (calls @ [currentError])
      | Inl interceptorError \<Rightarrow>
          if error = None
          then (ChainThrew (Exn \<lparr>name = ''TypeError'',
                  message = ''Cannot read properties of undefined''\<rparr>), calls @ [currentError])
          else errorInterceptorLoop error rest currentError (calls @ [currentError]))"

definition applyErrorInterceptors ::
  "error_interceptor list \<Rightarrow> http_thrown option \<Rightarrow> chain_result \<times> http_thrown option list" where
  "applyErrorInterceptors interceptors error = errorInterceptorLoop error interceptors error []"

text \<open>
  The error interceptor the module registers itself, lines 453 to 471. The first argument
  says whether \<^verbatim>\<open>window.location.pathname\<close> includes \<^verbatim>\<open>/login\<close>; the redirect is left out.
\<close>

fun returnValue :: "http_thrown option \<Rightarrow> interceptor_result" where
  "returnValue None = ReturnsOther"
| "returnValue (Some e) = ReturnsError e"

definition loginErrorInterceptor :: "bool \<Rightarrow> error_interceptor" where
  "loginErrorInterceptor onLoginPage error =
     (case error of
        Some (HttpError e) \<Rightarrow>
          if apiStatus e = 401 \<and> \<not> onLoginPage then Inr ReturnsNull
          else Inr (returnValue error)
      | _ \<Rightarrow> Inr (returnValue error))"

subsection \<open>\<^verbatim>\<open>request\<close> and its retry loop\<close>

text \<open>
  One pass through the \<^verbatim>\<open>try\<close> block, lines 242 to 293, given how \<^verbatim>\<open>fetch\<close> settles:
  the block returns from \<^verbatim>\<open>request\<close>, it ends having stored an \<^verbatim>\<open>ApiError\<close> in
  \<^verbatim>\<open>lastError\<close>, or it throws into the \<^verbatim>\<open>catch\<close> clause of line 295.
\<close>

datatype attempt_result = Returned envelope | Stored HttpApiError | Caught http_thrown

definition tryAttempt :: "response_interceptor list \<Rightarrow> fetch_outcome \<Rightarrow> attempt_result" where
  "tryAttempt interceptors outcome =
     (case outcome of
        Rejects x \<Rightarrow> Caught (Exn x)
      | Resolves r \<Rightarrow>
          if ok r then
            (case processResponse r of
               Inl x \<Rightarrow> Caught (Exn x)
             | Inr d \<Rightarrow>
                 (case applyResponseInterceptors interceptors
                         \<lparr>envData = d, envStatus = status r, envHeaders = contentType r\<rparr> of
                    Inl thrownError \<Rightarrow> Caught thrownError
                  | Inr result \<Rightarrow> Returned result))
          else
            (let errorData = (case processResponse r of Inl x \<Rightarrow> Null | Inr d \<Rightarrow> d);
                 msg = orElse (payloadMessage errorData)
                         (orElse (case ERROR_MESSAGES (status r) of None \<Rightarrow> [] | Some m \<Rightarrow> m)
                            (''Request failed with status '' @ showInt (status r)));
                 apiError = \<lparr>apiMessage = msg, apiStatus = status r, apiData = errorData,
                             originalError = None\<rparr>
             in if status r = 400 \<or> status r = 401 \<or> status r = 403 \<or>
                   status r = 404 \<or> status r = 422
                then Caught (HttpError apiError)
                else Stored apiError))"

text \<open>The value the \<^verbatim>\<open>catch\<close> clause assigns to \<^verbatim>\<open>lastError\<close>, lines 296 to 317.\<close>

definition catchError :: "http_thrown \<Rightarrow> http_thrown" where
  "catchError error =
     (if httpName error = ''AbortError'' then
        HttpError \<lparr>apiMessage = ''Request timed out'', apiStatus = 408, apiData = Null,
                   originalError = Some \<lparr>name = httpName error, message = httpMessage error\<rparr>\<rparr>
      else if httpName error = ''TypeError'' \<and> httpMessage error = ''Failed to fetch'' then
        HttpError \<lparr>apiMessage = ''Network error - please check your connection'', apiStatus = 0,
                   apiData = Null,
                   originalError = Some \<lparr>name = httpName error, message = httpMessage error\<rparr>\<rparr>
      else error)"

text \<open>
  The \<^verbatim>\<open>while\<close> loop, lines 241 to 337. \<open>fetch k\<close> is how the call of \<^verbatim>\<open>fetch\<close> settles
  when \<^verbatim>\<open>attempt\<close> is \<open>k\<close>. The loop returns from \<^verbatim>\<open>request\<close>, or it ends with
  \<^verbatim>\<open>lastError\<close>; the number is that of the calls of \<^verbatim>\<open>fetch\<close> made. The waiting of line
  333 changes no value and is left out.
\<close>

datatype loop_result = LoopReturned envelope nat | LoopEnded "http_thrown option" nat

function retryLoop ::
  "response_interceptor list \<Rightarrow> (nat \<Rightarrow> fetch_outcome) \<Rightarrow> int \<Rightarrow> nat \<Rightarrow> http_thrown option
     \<Rightarrow> loop_result" where
  "retryLoop interceptors fetch retries attempt lastError =
     (if int attempt \<le> retries then
        (case tryAttempt interceptors (fetch attempt) of
           Returned result \<Rightarrow> LoopReturned result (attempt + 1)
         | Stored apiError \<Rightarrow>
             retryLoop interceptors fetch retries (attempt + 1) (Some (HttpError apiError))
         | Caught error \<Rightarrow>
             if int attempt = retries then LoopEnded (Some (catchError error)) (attempt + 1)
             else retryLoop interceptors fetch retries (attempt + 1) (Some (catchError error)))
      else LoopEnded lastError attempt)"
  by pat_completeness auto
termination
  by (relation "measure (\<lambda>(interceptors, fetch, retries, attempt, lastError).
                  nat (retries + 1 - int attempt))") auto

declare retryLoop.simps [simp del]

text \<open>
  The request configuration after the defaults are merged in: the two fields \<^verbatim>\<open>request\<close>
  takes out of it (line 219) and the timeout.
\<close>

record http_config =
  retries :: int
  retryDelay :: int
  timeout :: int

text \<open>What a call of \<^verbatim>\<open>request\<close> does: how its promise settles, the number of calls of
  \<^verbatim>\<open>fetch\<close>, and the calls of error interceptors.\<close>

datatype request_result = Fulfilled envelope | FulfilledNull | RejectedWith "http_thrown option"

record request_run =
  result :: request_result
  fetches :: nat
  errorCalls :: "http_thrown option list"

text \<open>
  \<^verbatim>\<open>request\<close>, lines 203 to 352, on the contents of the three registries and the merged
  configuration. The request interceptors run outside the \<^verbatim>\<open>try\<close> block (line 217).
\<close>

definition request ::
  "http_config request_interceptor list \<Rightarrow> response_interceptor list \<Rightarrow> error_interceptor list
     \<Rightarrow> http_config \<Rightarrow> (nat \<Rightarrow> fetch_outcome) \<Rightarrow> request_run" where
  "request requestIs responseIs errorIs requestConfig fetch =
     (case applyRequestInterceptors requestIs requestConfig of
        Inl thrownError \<Rightarrow>
          \<lparr>result = RejectedWith (Some thrownError), fetches = 0, errorCalls = []\<rparr>
      | Inr config \<Rightarrow>
          (case retryLoop responseIs fetch (retries config) 0 None of
             LoopReturned response n \<Rightarrow> \<lparr>result = Fulfilled response, fetches = n, errorCalls = []\<rparr>
           | LoopEnded lastError n \<Rightarrow>
               (case applyErrorInterceptors errorIs lastError of
                  (Handled, calls) \<Rightarrow> \<lparr>result = FulfilledNull, fetches = n, errorCalls = calls\<rparr>
                | (Unhandled processedError, calls) \<Rightarrow>
                    \<lparr>result = RejectedWith processedError, fetches = n, errorCalls = calls\<rparr>
                | (ChainThrew thrownError, calls) \<Rightarrow>
                    \<lparr>result = RejectedWith (Some thrownError), fetches = n, errorCalls = calls\<rparr>)))"


subsection \<open>Instances and concrete inputs\<close>

text \<open>\<^verbatim>\<open>error instanceof ApiError\<close>, for the class of each module.\<close>

fun isApiError :: "thrown \<Rightarrow> bool" where
  "isApiError (ThrownApiError e) = True"
| "isApiError (ThrownExn x) = False"

fun isHttpApiError :: "http_thrown option \<Rightarrow> bool" where
  "isHttpApiError (Some (HttpError e)) = True"
| "isHttpApiError (Some (Exn x)) = False"
| "isHttpApiError None = False"

text \<open>The registries as lines 39 to 45 declare them: three empty arrays. Numbers stand for
  the interceptor functions.\<close>

definition emptyRegistries :: "(nat, nat, nat) registries" where
  "emptyRegistries = \<lparr>requestInterceptors = [], responseInterceptors = [], errorInterceptors = []\<rparr>"

text \<open>Responses and interceptors used as concrete inputs below.\<close>

definition jsonResponse :: "int \<Rightarrow> response" where
  "jsonResponse code =
     \<lparr>status = code, statusText = [], contentType = Some ''application/json'',
      jsonBody = Inr (Json None), textBody = Inr (Text ''{}''), blobBody = Inr Blob\<rparr>"

definition brokenJsonResponse :: response where
  "brokenJsonResponse =
     \<lparr>status = 200, statusText = ''OK'', contentType = Some ''application/json'',
      jsonBody = Inl \<lparr>name = ''SyntaxError'', message = ''Unexpected end of JSON input''\<rparr>,
      textBody = Inr (Text ''{''), blobBody = Inr Blob\<rparr>"

definition pngResponse :: response where
  "pngResponse =
     \<lparr>status = 200, statusText = ''OK'', contentType = Some ''image/png'',
      jsonBody = Inl \<lparr>name = ''SyntaxError'', message = ''Unexpected token''\<rparr>,
      textBody = Inr (Text ''PNG''), blobBody = Inr Blob\<rparr>"

definition octetResponse :: response where
  "octetResponse =
     \<lparr>status = 200, statusText = ''OK'', contentType = Some ''application/octet-stream'',
      jsonBody = Inl \<lparr>name = ''SyntaxError'', message = ''Unexpected token''\<rparr>,
      textBody = Inr (Text ''bytes''), blobBody = Inr Blob\<rparr>"

definition boom :: http_thrown where
  "boom = Exn \<lparr>name = ''Error'', message = ''boom''\<rparr>"

definition throwingInterceptor :: "'a \<Rightarrow> http_thrown + 'b" where
  "throwingInterceptor x = Inl boom"

definition passingErrorInterceptor :: error_interceptor where
  "passingErrorInterceptor error = Inr (returnValue error)"

definition defaultConfig :: "int \<Rightarrow> http_config" where
  "defaultConfig n = \<lparr>retries = n, retryDelay = 1000, timeout = 30000\<rparr>"


definition everyAttempt :: "fetch_outcome \<Rightarrow> nat \<Rightarrow> fetch_outcome" where
  "everyAttempt outcome attempt = outcome"

definition unauthorizedError :: http_thrown where
  "unauthorizedError =
     HttpError \<lparr>apiMessage = ''Authentication required'', apiStatus = 401, apiData = Json None,
                originalError = None\<rparr>"

definition notFoundError :: http_thrown where
  "notFoundError =
     HttpError \<lparr>apiMessage = ''The requested resource was not found'', apiStatus = 404,
                apiData = Json None, originalError = None\<rparr>"


section \<open>Properties of the retry policy and the classifier\<close>

text \<open>
  Claim C7. For every status code, the classifier returns one kind: a status of 500 or
  more is \<open>SERVER\<close>, 401 and 403 are \<open>AUTH\<close>, 404 is \<open>NOT_FOUND\<close>, 422 is
  \<open>VALIDATION\<close>, and every other status is \<open>UNKNOWN\<close>. The function is total, so it
  never throws.
\<close>

theorem mapStatusToErrorType_cases:
  "(sc \<ge> 500 \<longrightarrow> mapStatusToErrorType sc = SERVER) \<and>
   (sc = 401 \<or> sc = 403 \<longrightarrow> mapStatusToErrorType sc = AUTH) \<and>
   (sc = 404 \<longrightarrow> mapStatusToErrorType sc = NOT_FOUND) \<and>
   (sc = 422 \<longrightarrow> mapStatusToErrorType sc = VALIDATION) \<and>
   (sc < 500 \<and> sc \<noteq> 401 \<and> sc \<noteq> 403 \<and> sc \<noteq> 404 \<and> sc \<noteq> 422
      \<longrightarrow> mapStatusToErrorType sc = UNKNOWN)"
  by (simp add: mapStatusToErrorType_def)

theorem mapStatusToErrorType_cases_witness:
  "mapStatusToErrorType 503 = SERVER \<and> mapStatusToErrorType 401 = AUTH \<and>
   mapStatusToErrorType 403 = AUTH \<and> mapStatusToErrorType 404 = NOT_FOUND \<and>
   mapStatusToErrorType 422 = VALIDATION \<and> mapStatusToErrorType 409 = UNKNOWN"
  using mapStatusToErrorType_cases [of 503] mapStatusToErrorType_cases [of 401]
    mapStatusToErrorType_cases [of 403] mapStatusToErrorType_cases [of 404]
    mapStatusToErrorType_cases [of 422] mapStatusToErrorType_cases [of 409]
  by simp

lemma tryRequest_server_status:
  assumes "tryRequest outcome = Inl (ThrownApiError e)" and "type e = SERVER"
  shows "statusCode e \<ge> 500"
  using assms
  by (auto simp add: tryRequest_def mapStatusToErrorType_def
        split: fetch_outcome.splits sum.splits if_splits)

lemma networkError_kind: "type (networkError x) = NETWORK"
  by (simp add: networkError_def)

lemma shouldRetry_server_guard:
  "type e = SERVER \<Longrightarrow>
     shouldRetry e retryCount maxRetries = (retryCount < maxRetries \<and> statusCode e \<ge> 500)"
  by (auto simp add: shouldRetry_def)

text \<open>
  Claim C3. \<open>shouldRetry\<close> is false once the retry count has reached the cap; false for the
  kinds \<open>AUTH\<close>, \<open>VALIDATION\<close> and \<open>CANCELED\<close>, also at retry count 0 with a positive cap;
  true below the cap for \<open>NETWORK\<close> and \<open>TIMEOUT\<close>; true below the cap for \<open>SERVER\<close>; and
  false for \<open>NOT_FOUND\<close> and \<open>UNKNOWN\<close>. The function is private to the module and is called
  with the error the \<^verbatim>\<open>try\<close> block threw (line 285) or with the network error (line 313);
  an error of kind \<open>SERVER\<close> is built by the \<^verbatim>\<open>try\<close> block only, from a status of at least
  500, so that the test of the status code in line 100 never fails for it.
\<close>

theorem shouldRetry_policy:
  "(retryCount \<ge> maxRetries \<longrightarrow> \<not> shouldRetry e retryCount maxRetries) \<and>
   (type e = AUTH \<or> type e = VALIDATION \<or> type e = CANCELED
      \<longrightarrow> \<not> shouldRetry e retryCount maxRetries) \<and>
   (type e = NETWORK \<or> type e = TIMEOUT
      \<longrightarrow> shouldRetry e retryCount maxRetries = (retryCount < maxRetries)) \<and>
   (type e = SERVER \<and> tryRequest outcome = Inl (ThrownApiError e)
      \<longrightarrow> shouldRetry e retryCount maxRetries = (retryCount < maxRetries)) \<and>
   (type e = NOT_FOUND \<or> type e = UNKNOWN \<longrightarrow> \<not> shouldRetry e retryCount maxRetries)"
proof -
  have server: "type e = SERVER \<and> tryRequest outcome = Inl (ThrownApiError e)
      \<longrightarrow> shouldRetry e retryCount maxRetries = (retryCount < maxRetries)"
    using tryRequest_server_status [of outcome e] shouldRetry_server_guard [of e retryCount maxRetries]
    by blast
  have rest: "(retryCount \<ge> maxRetries \<longrightarrow> \<not> shouldRetry e retryCount maxRetries) \<and>
   (type e = AUTH \<or> type e = VALIDATION \<or> type e = CANCELED
      \<longrightarrow> \<not> shouldRetry e retryCount maxRetries) \<and>
   (type e = NETWORK \<or> type e = TIMEOUT
      \<longrightarrow> shouldRetry e retryCount maxRetries = (retryCount < maxRetries)) \<and>
   (type e = NOT_FOUND \<or> type e = UNKNOWN \<longrightarrow> \<not> shouldRetry e retryCount maxRetries)"
    by (auto simp add: shouldRetry_def)
  from server rest show ?thesis by blast
qed

theorem shouldRetry_policy_witness:
  "\<not> shouldRetry (networkError \<lparr>name = ''TypeError'', message = ''Failed to fetch''\<rparr>) 2 2 \<and>
   \<not> shouldRetry \<lparr>errorMessage = ''API request failed'', type = AUTH, statusCode = 401,
                    data = Json None\<rparr> 0 3 \<and>
   shouldRetry (networkError \<lparr>name = ''TypeError'', message = ''Failed to fetch''\<rparr>) 0 3 \<and>
   shouldRetry \<lparr>errorMessage = ''API request failed'', type = SERVER, statusCode = 503,
                  data = Json None\<rparr> 1 3 \<and>
   \<not> shouldRetry \<lparr>errorMessage = ''API request failed'', type = NOT_FOUND, statusCode = 404,
                    data = Json None\<rparr> 0 3"
proof -
  have built: "tryRequest (Resolves (jsonResponse 503))
                 = Inl (ThrownApiError \<lparr>errorMessage = ''API request failed'', type = SERVER,
                          statusCode = 503, data = Json None\<rparr>)"
    by code_simp
  have w1: "\<not> shouldRetry (networkError \<lparr>name = ''TypeError'', message = ''Failed to fetch''\<rparr>) 2 2"
    using shouldRetry_policy
      [where e = "networkError \<lparr>name = ''TypeError'', message = ''Failed to fetch''\<rparr>"
         and retryCount = 2 and maxRetries = 2, THEN conjunct1]
    by simp
  have w2: "\<not> shouldRetry \<lparr>errorMessage = ''API request failed'', type = AUTH, statusCode = 401,
                    data = Json None\<rparr> 0 3"
    using shouldRetry_policy
      [where e = "\<lparr>errorMessage = ''API request failed'', type = AUTH, statusCode = 401,
                    data = Json None\<rparr>"
         and retryCount = 0 and maxRetries = 3, THEN conjunct2, THEN conjunct1]
    by simp
  have w3: "shouldRetry (networkError \<lparr>name = ''TypeError'', message = ''Failed to fetch''\<rparr>) 0 3"
    using shouldRetry_policy
      [where e = "networkError \<lparr>name = ''TypeError'', message = ''Failed to fetch''\<rparr>"
         and retryCount = 0 and maxRetries = 3, THEN conjunct2, THEN conjunct2, THEN conjunct1]
      networkError_kind
    by simp
  have w4: "shouldRetry \<lparr>errorMessage = ''API request failed'', type = SERVER, statusCode = 503,
                  data = Json None\<rparr> 1 3"
    using shouldRetry_policy
      [where e = "\<lparr>errorMessage = ''API request failed'', type = SERVER, statusCode = 503,
                    data = Json None\<rparr>"
         and outcome = "Resolves (jsonResponse 503)"
         and retryCount = 1 and maxRetries = 3,
       THEN conjunct2, THEN conjunct2, THEN conjunct2, THEN conjunct1]
      built
    by simp
  have w5: "\<not> shouldRetry \<lparr>errorMessage = ''API request failed'', type = NOT_FOUND, statusCode = 404,
                    data = Json None\<rparr> 0 3"
    using shouldRetry_policy
      [where e = "\<lparr>errorMessage = ''API request failed'', type = NOT_FOUND, statusCode = 404,
                    data = Json None\<rparr>"
         and retryCount = 0 and maxRetries = 3,
       THEN conjunct2, THEN conjunct2, THEN conjunct2, THEN conjunct2]
    by simp
  from w1 w2 w3 w4 w5 show ?thesis by blast
qed

lemma exponentialDelay_range: "(300::real) \<le> min 3000 (300 * 2 ^ n) \<and> min 3000 (300 * 2 ^ n) \<le> (3000::real)"
proof -
  have "(1::real) \<le> 2 ^ n" by simp
  then have "(300::real) \<le> 300 * 2 ^ n" by simp
  then show ?thesis by simp
qed

lemma jitter_small:
  fixes fl :: "real \<Rightarrow> real"
  assumes fl: "\<And>x. \<bar>x\<bar> \<le> 4000 \<Longrightarrow> \<bar>fl x - x\<bar> \<le> \<bar>x\<bar> / 1000 + 1 / 1000"
    and r: "0 \<le> r" "r < 1" and e: "300 \<le> e" "e \<le> 3000"
  shows "\<bar>fl (fl (e * fl 0.2) * fl (r - 0.5))\<bar> \<le> 1013 / 10000 * e"
proof -
  have "\<bar>(0.2::real)\<bar> \<le> 4000" by simp
  from fl [OF this] have c: "\<bar>fl 0.2\<bar> \<le> 2012 / 10000" by argo
  have "\<bar>e * fl 0.2\<bar> = e * \<bar>fl 0.2\<bar>"
    using e by (simp add: abs_mult)
  also have "\<dots> \<le> e * (2012 / 10000)"
    using c e by (intro mult_left_mono) auto
  finally have p: "\<bar>e * fl 0.2\<bar> \<le> e * (2012 / 10000)" .
  then have p': "\<bar>e * fl 0.2\<bar> \<le> 4000" using e by argo
  have t1: "\<bar>fl (e * fl 0.2)\<bar> \<le> 2016 / 10000 * e"
    using fl [OF p'] p e by argo
  have d: "\<bar>r - 0.5\<bar> \<le> 1 / 2" using r by argo
  then have d': "\<bar>r - 0.5\<bar> \<le> 4000" by argo
  have t2: "\<bar>fl (r - 0.5)\<bar> \<le> 5015 / 10000"
    using fl [OF d'] d by argo
  have "\<bar>fl (e * fl 0.2) * fl (r - 0.5)\<bar> = \<bar>fl (e * fl 0.2)\<bar> * \<bar>fl (r - 0.5)\<bar>"
    by (simp add: abs_mult)
  also have "\<dots> \<le> (2016 / 10000 * e) * (5015 / 10000)"
    using t1 t2 by (intro mult_mono) (use e in auto)
  finally have q: "\<bar>fl (e * fl 0.2) * fl (r - 0.5)\<bar> \<le> (2016 / 10000 * e) * (5015 / 10000)" .
  then have q': "\<bar>fl (e * fl 0.2) * fl (r - 0.5)\<bar> \<le> 4000" using e by argo
  show ?thesis
    using fl [OF q'] q e by argo
qed

lemma getRetryDelay_within:
  fixes fl :: "real \<Rightarrow> real"
  assumes fl: "\<And>x. \<bar>x\<bar> \<le> 4000 \<Longrightarrow> \<bar>fl x - x\<bar> \<le> \<bar>x\<bar> / 1000 + 1 / 1000"
    and r: "0 \<le> r" "r < 1"
  shows "0.89 * min 3000 (300 * 2 ^ n) \<le> getRetryDelay fl n r"
    and "getRetryDelay fl n r \<le> 1.11 * min 3000 (300 * 2 ^ n)"
proof -
  define e :: real where "e = min 3000 (300 * 2 ^ n)"
  define j where "j = fl (fl (e * fl 0.2) * fl (r - 0.5))"
  have e: "300 \<le> e" "e \<le> 3000"
    using exponentialDelay_range [of n] by (simp_all add: e_def)
  have j: "\<bar>j\<bar> \<le> 1013 / 10000 * e"
    unfolding j_def using jitter_small [OF fl r e] .
  have eq: "getRetryDelay fl n r = fl (e + j)"
    by (simp add: getRetryDelay_def Let_def e_def j_def)
  have s: "\<bar>e + j\<bar> \<le> 4000" using j e by argo
  have f: "\<bar>fl (e + j) - (e + j)\<bar> \<le> \<bar>e + j\<bar> / 1000 + 1 / 1000"
    using fl [OF s] .
  have lo: "89 / 100 * e \<le> fl (e + j)" using f j e by argo
  have hi: "fl (e + j) \<le> 111 / 100 * e" using f j e by argo
  show "0.89 * min 3000 (300 * 2 ^ n) \<le> getRetryDelay fl n r"
    unfolding eq e_def [symmetric] using lo by simp
  show "getRetryDelay fl n r \<le> 1.11 * min 3000 (300 * 2 ^ n)"
    unfolding eq e_def [symmetric] using hi by simp
qed

lemma exact_rounds: "\<bar>exact x - x\<bar> \<le> \<bar>x\<bar> / 2 ^ 53 + 1 / 2 ^ 1075"
  by (simp add: exact_def)

lemma double_rounding_coarse:
  fixes fl :: "real \<Rightarrow> real"
  assumes "\<And>x. \<bar>x\<bar> \<le> 4000 \<Longrightarrow> \<bar>fl x - x\<bar> \<le> \<bar>x\<bar> / 2 ^ 53 + 1 / 2 ^ 1075"
    and "\<bar>x\<bar> \<le> 4000"
  shows "\<bar>fl x - x\<bar> \<le> \<bar>x\<bar> / 1000 + 1 / 1000"
proof -
  have a: "\<bar>x\<bar> / 2 ^ 53 \<le> \<bar>x\<bar> / 1000"
    by (intro divide_left_mono) auto
  have "(2::real) ^ 10 \<le> 2 ^ 1075"
    by (rule power_increasing) auto
  then have "(1000::real) \<le> 2 ^ 1075" by simp
  then have b: "1 / (2::real) ^ 1075 \<le> 1 / 1000"
    by (intro divide_left_mono) auto
  from assms(1) [OF assms(2)] a b show ?thesis by argo
qed

lemma getRetryDelay_within_doubles:
  fixes fl :: "real \<Rightarrow> real"
  assumes "\<And>x. \<bar>x\<bar> \<le> 4000 \<Longrightarrow> \<bar>fl x - x\<bar> \<le> \<bar>x\<bar> / 2 ^ 53 + 1 / 2 ^ 1075"
    and "0 \<le> r" and "r < 1"
  shows "0.89 * min 3000 (300 * 2 ^ n) \<le> getRetryDelay fl n r \<and>
         getRetryDelay fl n r \<le> 1.11 * min 3000 (300 * 2 ^ n)"
  using getRetryDelay_within [of fl r n] double_rounding_coarse [of fl] assms by blast

lemma getRetryDelay_band:
  fixes fl :: "real \<Rightarrow> real"
  assumes "\<And>x. \<bar>x\<bar> \<le> 4000 \<Longrightarrow> \<bar>fl x - x\<bar> \<le> \<bar>x\<bar> / 2 ^ 53 + 1 / 2 ^ 1075"
    and "0 \<le> r" and "r < 1"
  shows "0.8 * min 3000 (300 * 2 ^ n) \<le> getRetryDelay fl n r \<and>
         getRetryDelay fl n r \<le> 1.2 * min 3000 (300 * 2 ^ n)"
proof -
  have w: "0.89 * min 3000 (300 * 2 ^ n) \<le> getRetryDelay fl n r \<and>
           getRetryDelay fl n r \<le> 1.11 * min 3000 (300 * 2 ^ n)"
    using getRetryDelay_within_doubles [of fl r n] assms by blast
  have pos: "(0::real) \<le> min 3000 (300 * 2 ^ n)" by simp
  have lo: "(0.8::real) * min 3000 (300 * 2 ^ n) \<le> 0.89 * min 3000 (300 * 2 ^ n)"
    using pos by (intro mult_right_mono) auto
  have hi: "(1.11::real) * min 3000 (300 * 2 ^ n) \<le> 1.2 * min 3000 (300 * 2 ^ n)"
    using pos by (intro mult_right_mono) auto
  from w lo hi show ?thesis by argo
qed

text \<open>
  Claim C8 says that the delay is \<open>min 3000 (300 * 2 ^ n)\<close> scaled by a jitter factor drawn
  from the range of plus or minus 20 percent, as does the comment of line 118. The code
  multiplies by \<open>0.2 * (Math.random() - 0.5)\<close>, which lies between \<open>- 0.1\<close> and \<open>0.1\<close>:
  whatever the retry count \<open>n\<close> and the draw \<open>r\<close> in \<open>[0, 1)\<close>, and for every rounding that is
  as close as that of doubles, the delay stays between 0.89 and 1.11 times
  \<open>min 3000 (300 * 2 ^ n)\<close>. The jitter is of 10 percent, not of 20.
\<close>

theorem getRetryDelay_jitter_ten_percent:
  fixes fl :: "real \<Rightarrow> real"
  assumes "\<And>x. \<bar>x\<bar> \<le> 4000 \<Longrightarrow> \<bar>fl x - x\<bar> \<le> \<bar>x\<bar> / 2 ^ 53 + 1 / 2 ^ 1075"
    and "0 \<le> r" and "r < 1"
  shows "0.89 * min 3000 (300 * 2 ^ n) \<le> getRetryDelay fl n r \<and>
         getRetryDelay fl n r \<le> 1.11 * min 3000 (300 * 2 ^ n)"
  using getRetryDelay_within_doubles [of fl r n] assms by blast

theorem getRetryDelay_jitter_ten_percent_witness:
  "0.89 * 600 \<le> getRetryDelay exact 1 0 \<and> getRetryDelay exact 1 0 \<le> 1.11 * 600 \<and>
   0.8 * 600 < getRetryDelay exact 1 0"
proof -
  have b: "0.89 * min 3000 (300 * 2 ^ 1) \<le> getRetryDelay exact 1 0 \<and>
           getRetryDelay exact 1 0 \<le> 1.11 * min 3000 (300 * 2 ^ 1)"
    using getRetryDelay_jitter_ten_percent [of exact 0 1] exact_rounds by simp
  then show ?thesis by simp
qed


section \<open>Properties of the interceptor registries\<close>

lemma indexOf_notin: "x \<notin> set xs \<Longrightarrow> indexOf xs x = - 1"
  by (induction xs) (auto simp: Let_def)

lemma indexOf_first: "x \<notin> set xs \<Longrightarrow> indexOf (xs @ x # ys) x = int (length xs)"
  by (induction xs) (auto simp: Let_def)

lemma splice_first: "splice_js (xs @ x # ys) (length xs) (Suc 0) = xs @ ys"
  by (simp add: splice_js_def)

lemma count_le_1_rest:
  assumes "count_list (xs @ x # ys) x \<le> 1"
  shows "x \<notin> set ys"
  using assms by (auto simp: count_list_0_iff)

lemma removeRequestInterceptor_first:
  assumes "requestInterceptors t = xs @ q # ys" "q \<notin> set xs"
  shows "removeRequestInterceptor q t = t\<lparr>requestInterceptors := xs @ ys\<rparr>"
  using assms by (simp add: removeRequestInterceptor_def Let_def indexOf_first splice_first)

lemma removeRequestInterceptor_absent:
  "q \<notin> set (requestInterceptors t) \<Longrightarrow> removeRequestInterceptor q t = t"
  by (simp add: removeRequestInterceptor_def Let_def indexOf_notin)

lemma removeRequestInterceptor_twice:
  assumes "count_list (requestInterceptors t) q \<le> 1"
  shows "removeRequestInterceptor q (removeRequestInterceptor q t) = removeRequestInterceptor q t"
proof (cases "q \<in> set (requestInterceptors t)")
  case False
  then show ?thesis by (simp add: removeRequestInterceptor_absent)
next
  case True
  then obtain xs ys where sp: "requestInterceptors t = xs @ q # ys" "q \<notin> set xs"
    by (auto dest: split_list_first)
  with assms have "q \<notin> set ys" using count_le_1_rest [of xs q ys] by simp
  with sp show ?thesis
    by (simp add: removeRequestInterceptor_first removeRequestInterceptor_absent)
qed

lemma removeResponseInterceptor_first:
  assumes "responseInterceptors t = xs @ r # ys" "r \<notin> set xs"
  shows "removeResponseInterceptor r t = t\<lparr>responseInterceptors := xs @ ys\<rparr>"
  using assms by (simp add: removeResponseInterceptor_def Let_def indexOf_first splice_first)

lemma removeResponseInterceptor_absent:
  "r \<notin> set (responseInterceptors t) \<Longrightarrow> removeResponseInterceptor r t = t"
  by (simp add: removeResponseInterceptor_def Let_def indexOf_notin)

lemma removeResponseInterceptor_twice:
  assumes "count_list (responseInterceptors t) r \<le> 1"
  shows "removeResponseInterceptor r (removeResponseInterceptor r t) = removeResponseInterceptor r t"
proof (cases "r \<in> set (responseInterceptors t)")
  case False
  then show ?thesis by (simp add: removeResponseInterceptor_absent)
next
  case True
  then obtain xs ys where sp: "responseInterceptors t = xs @ r # ys" "r \<notin> set xs"
    by (auto dest: split_list_first)
  with assms have "r \<notin> set ys" using count_le_1_rest [of xs r ys] by simp
  with sp show ?thesis
    by (simp add: removeResponseInterceptor_first removeResponseInterceptor_absent)
qed

lemma removeErrorInterceptor_first:
  assumes "errorInterceptors t = xs @ e # ys" "e \<notin> set xs"
  shows "removeErrorInterceptor e t = t\<lparr>errorInterceptors := xs @ ys\<rparr>"
  using assms by (simp add: removeErrorInterceptor_def Let_def indexOf_first splice_first)

lemma removeErrorInterceptor_absent:
  "e \<notin> set (errorInterceptors t) \<Longrightarrow> removeErrorInterceptor e t = t"
  by (simp add: removeErrorInterceptor_def Let_def indexOf_notin)

lemma removeErrorInterceptor_twice:
  assumes "count_list (errorInterceptors t) e \<le> 1"
  shows "removeErrorInterceptor e (removeErrorInterceptor e t) = removeErrorInterceptor e t"
proof (cases "e \<in> set (errorInterceptors t)")
  case False
  then show ?thesis by (simp add: removeErrorInterceptor_absent)
next
  case True
  then obtain xs ys where sp: "errorInterceptors t = xs @ e # ys" "e \<notin> set xs"
    by (auto dest: split_list_first)
  with assms have "e \<notin> set ys" using count_le_1_rest [of xs e ys] by simp
  with sp show ?thesis
    by (simp add: removeErrorInterceptor_first removeErrorInterceptor_absent)
qed

text \<open>
  Claim C10, as the code has it. In each of the three registries, adding an interceptor
  appends it at the end and leaves the two other registries as they are, and returns a
  remover. Invoked on any later state of the registries, the remover deletes the first
  occurrence of the interceptor and keeps the others in their order; it changes nothing when
  the interceptor is not registered. Invoking it a second time changes nothing provided the
  interceptor occurred at most once in the registry.
\<close>

theorem registry_add_remove:
  fixes regs t :: "('q, 'r, 'e) registries"
  shows
  "fst (addRequestInterceptor q regs) = regs\<lparr>requestInterceptors := requestInterceptors regs @ [q]\<rparr> \<and>
   (requestInterceptors t = xs @ q # ys \<and> q \<notin> set xs
      \<longrightarrow> snd (addRequestInterceptor q regs) t = t\<lparr>requestInterceptors := xs @ ys\<rparr>) \<and>
   (q \<notin> set (requestInterceptors t) \<longrightarrow> snd (addRequestInterceptor q regs) t = t) \<and>
   (count_list (requestInterceptors t) q \<le> 1
      \<longrightarrow> snd (addRequestInterceptor q regs) (snd (addRequestInterceptor q regs) t)
          = snd (addRequestInterceptor q regs) t) \<and>
   fst (addResponseInterceptor r regs) = regs\<lparr>responseInterceptors := responseInterceptors regs @ [r]\<rparr> \<and>
   (responseInterceptors t = xs' @ r # ys' \<and> r \<notin> set xs'
      \<longrightarrow> snd (addResponseInterceptor r regs) t = t\<lparr>responseInterceptors := xs' @ ys'\<rparr>) \<and>
   (r \<notin> set (responseInterceptors t) \<longrightarrow> snd (addResponseInterceptor r regs) t = t) \<and>
   (count_list (responseInterceptors t) r \<le> 1
      \<longrightarrow> snd (addResponseInterceptor r regs) (snd (addResponseInterceptor r regs) t)
          = snd (addResponseInterceptor r regs) t) \<and>
   fst (addErrorInterceptor e regs) = regs\<lparr>errorInterceptors := errorInterceptors regs @ [e]\<rparr> \<and>
   (errorInterceptors t = xs'' @ e # ys'' \<and> e \<notin> set xs''
      \<longrightarrow> snd (addErrorInterceptor e regs) t = t\<lparr>errorInterceptors := xs'' @ ys''\<rparr>) \<and>
   (e \<notin> set (errorInterceptors t) \<longrightarrow> snd (addErrorInterceptor e regs) t = t) \<and>
   (count_list (errorInterceptors t) e \<le> 1
      \<longrightarrow> snd (addErrorInterceptor e regs) (snd (addErrorInterceptor e regs) t)
          = snd (addErrorInterceptor e regs) t)"
proof -
  have q: "snd (addRequestInterceptor q regs) = removeRequestInterceptor q"
    by (simp add: addRequestInterceptor_def)
  have r: "snd (addResponseInterceptor r regs) = removeResponseInterceptor r"
    by (simp add: addResponseInterceptor_def)
  have e: "snd (addErrorInterceptor e regs) = removeErrorInterceptor e"
    by (simp add: addErrorInterceptor_def)
  have q1: "fst (addRequestInterceptor q regs)
              = regs\<lparr>requestInterceptors := requestInterceptors regs @ [q]\<rparr>"
    by (simp add: addRequestInterceptor_def)
  have q2: "requestInterceptors t = xs @ q # ys \<and> q \<notin> set xs
      \<longrightarrow> snd (addRequestInterceptor q regs) t = t\<lparr>requestInterceptors := xs @ ys\<rparr>"
    unfolding q using removeRequestInterceptor_first [of t xs q ys] by simp
  have q3: "q \<notin> set (requestInterceptors t) \<longrightarrow> snd (addRequestInterceptor q regs) t = t"
    unfolding q using removeRequestInterceptor_absent [of q t] by simp
  have q4: "count_list (requestInterceptors t) q \<le> 1
      \<longrightarrow> snd (addRequestInterceptor q regs) (snd (addRequestInterceptor q regs) t)
          = snd (addRequestInterceptor q regs) t"
    unfolding q using removeRequestInterceptor_twice [of t q] by simp
  have r1: "fst (addResponseInterceptor r regs)
              = regs\<lparr>responseInterceptors := responseInterceptors regs @ [r]\<rparr>"
    by (simp add: addResponseInterceptor_def)
  have r2: "responseInterceptors t = xs' @ r # ys' \<and> r \<notin> set xs'
      \<longrightarrow> snd (addResponseInterceptor r regs) t = t\<lparr>responseInterceptors := xs' @ ys'\<rparr>"
    unfolding r using removeResponseInterceptor_first [of t xs' r ys'] by simp
  have r3: "r \<notin> set (responseInterceptors t) \<longrightarrow> snd (addResponseInterceptor r regs) t = t"
    unfolding r using removeResponseInterceptor_absent [of r t] by simp
  have r4: "count_list (responseInterceptors t) r \<le> 1
      \<longrightarrow> snd (addResponseInterceptor r regs) (snd (addResponseInterceptor r regs) t)
          = snd (addResponseInterceptor r regs) t"
    unfolding r using removeResponseInterceptor_twice [of t r] by simp
  have e1: "fst (addErrorInterceptor e regs)
              = regs\<lparr>errorInterceptors := errorInterceptors regs @ [e]\<rparr>"
    by (simp add: addErrorInterceptor_def)
  have e2: "errorInterceptors t = xs'' @ e # ys'' \<and> e \<notin> set xs''
      \<longrightarrow> snd (addErrorInterceptor e regs) t = t\<lparr>errorInterceptors := xs'' @ ys''\<rparr>"
    unfolding e using removeErrorInterceptor_first [of t xs'' e ys''] by simp
  have e3: "e \<notin> set (errorInterceptors t) \<longrightarrow> snd (addErrorInterceptor e regs) t = t"
    unfolding e using removeErrorInterceptor_absent [of e t] by simp
  have e4: "count_list (errorInterceptors t) e \<le> 1
      \<longrightarrow> snd (addErrorInterceptor e regs) (snd (addErrorInterceptor e regs) t)
          = snd (addErrorInterceptor e regs) t"
    unfolding e using removeErrorInterceptor_twice [of t e] by simp
  show ?thesis
    by (intro conjI) (rule q1, rule q2, rule q3, rule q4, rule r1, rule r2, rule r3, rule r4,
      rule e1, rule e2, rule e3, rule e4)
qed

theorem registry_add_remove_witness:
  "fst (addRequestInterceptor (5::nat) emptyRegistries) = emptyRegistries\<lparr>requestInterceptors := [5]\<rparr> \<and>
   fst (addResponseInterceptor (5::nat) emptyRegistries) = emptyRegistries\<lparr>responseInterceptors := [5]\<rparr> \<and>
   fst (addErrorInterceptor (5::nat) emptyRegistries) = emptyRegistries\<lparr>errorInterceptors := [5]\<rparr> \<and>
   snd (addRequestInterceptor 5 emptyRegistries) (emptyRegistries\<lparr>requestInterceptors := [4, 5, 6, 5]\<rparr>) = emptyRegistries\<lparr>requestInterceptors := [4, 6, 5]\<rparr> \<and>
   snd (addRequestInterceptor 5 emptyRegistries) (emptyRegistries\<lparr>requestInterceptors := [4, 6]\<rparr>) = emptyRegistries\<lparr>requestInterceptors := [4, 6]\<rparr> \<and>
   snd (addRequestInterceptor 5 emptyRegistries) (snd (addRequestInterceptor 5 emptyRegistries) (emptyRegistries\<lparr>requestInterceptors := [4, 5, 6]\<rparr>)) = snd (addRequestInterceptor 5 emptyRegistries) (emptyRegistries\<lparr>requestInterceptors := [4, 5, 6]\<rparr>) \<and>
   snd (addResponseInterceptor 5 emptyRegistries) (emptyRegistries\<lparr>responseInterceptors := [4, 5, 6]\<rparr>) = emptyRegistries\<lparr>responseInterceptors := [4, 6]\<rparr> \<and>
   snd (addResponseInterceptor 5 emptyRegistries) (emptyRegistries\<lparr>requestInterceptors := [4, 5, 6, 5]\<rparr>) = emptyRegistries\<lparr>requestInterceptors := [4, 5, 6, 5]\<rparr> \<and>
   snd (addResponseInterceptor 5 emptyRegistries) (snd (addResponseInterceptor 5 emptyRegistries) (emptyRegistries\<lparr>responseInterceptors := [4, 5, 6]\<rparr>)) = snd (addResponseInterceptor 5 emptyRegistries) (emptyRegistries\<lparr>responseInterceptors := [4, 5, 6]\<rparr>) \<and>
   snd (addErrorInterceptor 5 emptyRegistries) (emptyRegistries\<lparr>errorInterceptors := [5, 6]\<rparr>) = emptyRegistries\<lparr>errorInterceptors := [6]\<rparr> \<and>
   snd (addErrorInterceptor 5 emptyRegistries) (emptyRegistries\<lparr>requestInterceptors := [4, 5, 6, 5]\<rparr>) = emptyRegistries\<lparr>requestInterceptors := [4, 5, 6, 5]\<rparr> \<and>
   snd (addErrorInterceptor 5 emptyRegistries) (snd (addErrorInterceptor 5 emptyRegistries) (emptyRegistries\<lparr>errorInterceptors := [5, 6]\<rparr>)) = snd (addErrorInterceptor 5 emptyRegistries) (emptyRegistries\<lparr>errorInterceptors := [5, 6]\<rparr>)"
proof -
  note i1 = registry_add_remove [of 5 emptyRegistries "emptyRegistries\<lparr>requestInterceptors := [4, 5, 6, 5]\<rparr>"
      "[4]" "[6, 5]" 5 "[]" "[]" 5 "[]" "[]"]
  note i2 = registry_add_remove [of 5 emptyRegistries "emptyRegistries\<lparr>requestInterceptors := [4, 6]\<rparr>"
      "[]" "[]" 5 "[]" "[]" 5 "[]" "[]"]
  note i3 = registry_add_remove [of 5 emptyRegistries "emptyRegistries\<lparr>requestInterceptors := [4, 5, 6]\<rparr>"
      "[4]" "[6]" 5 "[]" "[]" 5 "[]" "[]"]
  note i4 = registry_add_remove [of 5 emptyRegistries "emptyRegistries\<lparr>responseInterceptors := [4, 5, 6]\<rparr>"
      "[]" "[]" 5 "[4]" "[6]" 5 "[]" "[]"]
  note i5 = registry_add_remove [of 5 emptyRegistries "emptyRegistries\<lparr>errorInterceptors := [5, 6]\<rparr>"
      "[]" "[]" 5 "[]" "[]" 5 "[]" "[6]"]
  have add_q: "fst (addRequestInterceptor (5::nat) emptyRegistries) = emptyRegistries\<lparr>requestInterceptors := [5]\<rparr>"
    using i1 [THEN conjunct1] by (simp add: emptyRegistries_def)
  have add_r: "fst (addResponseInterceptor (5::nat) emptyRegistries) = emptyRegistries\<lparr>responseInterceptors := [5]\<rparr>"
    using i1 [THEN conjunct2, THEN conjunct2, THEN conjunct2, THEN conjunct2, THEN conjunct1] by (simp add: emptyRegistries_def)
  have add_e: "fst (addErrorInterceptor (5::nat) emptyRegistries) = emptyRegistries\<lparr>errorInterceptors := [5]\<rparr>"
    using i1 [THEN conjunct2, THEN conjunct2, THEN conjunct2, THEN conjunct2, THEN conjunct2, THEN conjunct2, THEN conjunct2, THEN conjunct2, THEN conjunct1] by (simp add: emptyRegistries_def)
  have rm_q: "snd (addRequestInterceptor 5 emptyRegistries) (emptyRegistries\<lparr>requestInterceptors := [4, 5, 6, 5]\<rparr>) = emptyRegistries\<lparr>requestInterceptors := [4, 6, 5]\<rparr>"
    using i1 [THEN conjunct2, THEN conjunct1] by (simp add: emptyRegistries_def)
  have no_q: "snd (addRequestInterceptor 5 emptyRegistries) (emptyRegistries\<lparr>requestInterceptors := [4, 6]\<rparr>) = emptyRegistries\<lparr>requestInterceptors := [4, 6]\<rparr>"
    using i2 [THEN conjunct2, THEN conjunct2, THEN conjunct1] by (simp add: emptyRegistries_def)
  have twice_q: "snd (addRequestInterceptor 5 emptyRegistries) (snd (addRequestInterceptor 5 emptyRegistries) (emptyRegistries\<lparr>requestInterceptors := [4, 5, 6]\<rparr>)) = snd (addRequestInterceptor 5 emptyRegistries) (emptyRegistries\<lparr>requestInterceptors := [4, 5, 6]\<rparr>)"
    using i3 [THEN conjunct2, THEN conjunct2, THEN conjunct2, THEN conjunct1] by (simp add: emptyRegistries_def)
  have rm_r: "snd (addResponseInterceptor 5 emptyRegistries) (emptyRegistries\<lparr>responseInterceptors := [4, 5, 6]\<rparr>) = emptyRegistries\<lparr>responseInterceptors := [4, 6]\<rparr>"
    using i4 [THEN conjunct2, THEN conjunct2, THEN conjunct2, THEN conjunct2, THEN conjunct2, THEN conjunct1] by (simp add: emptyRegistries_def)
  have no_r: "snd (addResponseInterceptor 5 emptyRegistries) (emptyRegistries\<lparr>requestInterceptors := [4, 5, 6, 5]\<rparr>) = emptyRegistries\<lparr>requestInterceptors := [4, 5, 6, 5]\<rparr>"
    using i1 [THEN conjunct2, THEN conjunct2, THEN conjunct2, THEN conjunct2, THEN conjunct2, THEN conjunct2, THEN conjunct1] by (simp add: emptyRegistries_def)
  have twice_r: "snd (addResponseInterceptor 5 emptyRegistries) (snd (addResponseInterceptor 5 emptyRegistries) (emptyRegistries\<lparr>responseInterceptors := [4, 5, 6]\<rparr>)) = snd (addResponseInterceptor 5 emptyRegistries) (emptyRegistries\<lparr>responseInterceptors := [4, 5, 6]\<rparr>)"
    using i4 [THEN conjunct2, THEN conjunct2, THEN conjunct2, THEN conjunct2, THEN conjunct2, THEN conjunct2, THEN conjunct2, THEN conjunct1] by (simp add: emptyRegistries_def)
  have rm_e: "snd (addErrorInterceptor 5 emptyRegistries) (emptyRegistries\<lparr>errorInterceptors := [5, 6]\<rparr>) = emptyRegistries\<lparr>errorInterceptors := [6]\<rparr>"
    using i5 [THEN conjunct2, THEN conjunct2, THEN conjunct2, THEN conjunct2, THEN conjunct2, THEN conjunct2, THEN conjunct2, THEN conjunct2, THEN conjunct2, THEN conjunct1] by (simp add: emptyRegistries_def)
  have no_e: "snd (addErrorInterceptor 5 emptyRegistries) (emptyRegistries\<lparr>requestInterceptors := [4, 5, 6, 5]\<rparr>) = emptyRegistries\<lparr>requestInterceptors := [4, 5, 6, 5]\<rparr>"
    using i1 [THEN conjunct2, THEN conjunct2, THEN conjunct2, THEN conjunct2, THEN conjunct2, THEN conjunct2, THEN conjunct2, THEN conjunct2, THEN conjunct2, THEN conjunct2, THEN conjunct1] by (simp add: emptyRegistries_def)
  have twice_e: "snd (addErrorInterceptor 5 emptyRegistries) (snd (addErrorInterceptor 5 emptyRegistries) (emptyRegistries\<lparr>errorInterceptors := [5, 6]\<rparr>)) = snd (addErrorInterceptor 5 emptyRegistries) (emptyRegistries\<lparr>errorInterceptors := [5, 6]\<rparr>)"
    using i5 [THEN conjunct2, THEN conjunct2, THEN conjunct2, THEN conjunct2, THEN conjunct2, THEN conjunct2, THEN conjunct2, THEN conjunct2, THEN conjunct2, THEN conjunct2, THEN conjunct2] by (simp add: emptyRegistries_def)
  show ?thesis
    by (intro conjI) (rule add_q, rule add_r, rule add_e, rule rm_q, rule no_q, rule twice_q, rule rm_r, rule no_r, rule twice_r, rule rm_e, rule no_e, rule twice_e)
qed

text \<open>
  The remover is not idempotent when the same interceptor is registered twice: after
  \<^verbatim>\<open>add(f); add(f)\<close>, the first call of the remover of the first registration leaves one
  occurrence, and its second call removes that one too.
\<close>

theorem remover_twice_counterexample:
  "snd (addRequestInterceptor 7 emptyRegistries)
     (snd (addRequestInterceptor 7 emptyRegistries)
        (fst (addRequestInterceptor 7 (fst (addRequestInterceptor 7 emptyRegistries)))))
   \<noteq> snd (addRequestInterceptor 7 emptyRegistries)
        (fst (addRequestInterceptor 7 (fst (addRequestInterceptor 7 emptyRegistries))))"
  by code_simp

section \<open>Properties of body parsing\<close>

text \<open>
  Claim C9, as the code has it. \<^verbatim>\<open>processResponse\<close> of \<^verbatim>\<open>http.js\<close> chooses by the content
  type (the empty string when there is none): JSON when it includes
  \<^verbatim>\<open>application/json\<close>; else text when it includes \<^verbatim>\<open>text/plain\<close> or \<^verbatim>\<open>text/html\<close>;
  else binary when it includes \<^verbatim>\<open>application/octet-stream\<close>; else it returns the
  response object itself, unparsed. The parsing of \<^verbatim>\<open>client.js\<close> is JSON when the content
  type includes \<^verbatim>\<open>application/json\<close>, and text in every other case, the binary
  content type included.
\<close>

theorem body_parsing_strategy:
  "(includes_str (case contentType r of None \<Rightarrow> [] | Some c \<Rightarrow> c) ''application/json''
      \<longrightarrow> processResponse r = jsonBody r \<and> parseResponse r = jsonBody r) \<and>
   (\<not> includes_str (case contentType r of None \<Rightarrow> [] | Some c \<Rightarrow> c) ''application/json''
      \<longrightarrow> parseResponse r = textBody r) \<and>
   (\<not> includes_str (case contentType r of None \<Rightarrow> [] | Some c \<Rightarrow> c) ''application/json'' \<and>
    (includes_str (case contentType r of None \<Rightarrow> [] | Some c \<Rightarrow> c) ''text/plain'' \<or>
     includes_str (case contentType r of None \<Rightarrow> [] | Some c \<Rightarrow> c) ''text/html'')
      \<longrightarrow> processResponse r = textBody r) \<and>
   (\<not> includes_str (case contentType r of None \<Rightarrow> [] | Some c \<Rightarrow> c) ''application/json'' \<and>
    \<not> includes_str (case contentType r of None \<Rightarrow> [] | Some c \<Rightarrow> c) ''text/plain'' \<and>
    \<not> includes_str (case contentType r of None \<Rightarrow> [] | Some c \<Rightarrow> c) ''text/html'' \<and>
    includes_str (case contentType r of None \<Rightarrow> [] | Some c \<Rightarrow> c) ''application/octet-stream''
      \<longrightarrow> processResponse r = blobBody r) \<and>
   (\<not> includes_str (case contentType r of None \<Rightarrow> [] | Some c \<Rightarrow> c) ''application/json'' \<and>
    \<not> includes_str (case contentType r of None \<Rightarrow> [] | Some c \<Rightarrow> c) ''text/plain'' \<and>
    \<not> includes_str (case contentType r of None \<Rightarrow> [] | Some c \<Rightarrow> c) ''text/html'' \<and>
    \<not> includes_str (case contentType r of None \<Rightarrow> [] | Some c \<Rightarrow> c) ''application/octet-stream''
      \<longrightarrow> processResponse r = Inr RawResponse)"
proof -
  define ct where "ct = (case contentType r of None \<Rightarrow> [] | Some c \<Rightarrow> c)"
  have nonempty: "includes_str ct ''application/json'' \<Longrightarrow> ct \<noteq> []"
    by (cases ct) auto
  have p: "parseResponse r =
             (if includes_str ct ''application/json'' then jsonBody r else textBody r)"
    using nonempty by (auto simp add: parseResponse_def ct_def split: option.splits)
  show ?thesis
    unfolding ct_def [symmetric] p
    by (simp add: processResponse_def ct_def [symmetric] Let_def)
qed

theorem body_parsing_strategy_witness:
  "processResponse (jsonResponse 200) = Inr (Json None) \<and>
   parseResponse (jsonResponse 200) = Inr (Json None) \<and>
   parseResponse octetResponse = Inr (Text ''bytes'') \<and>
   processResponse ((jsonResponse 200)\<lparr>contentType := Some ''text/html; charset=utf-8''\<rparr>)
     = Inr (Text ''{}'') \<and>
   processResponse octetResponse = Inr Blob \<and>
   processResponse pngResponse = Inr RawResponse"
proof -
  have c1: "includes_str ''application/json'' ''application/json''" by code_simp
  have c2: "\<not> includes_str ''application/octet-stream'' ''application/json''" by code_simp
  have c3: "\<not> includes_str ''text/html; charset=utf-8'' ''application/json''" by code_simp
  have c4: "includes_str ''text/html; charset=utf-8'' ''text/html''" by code_simp
  have c5: "\<not> includes_str ''application/octet-stream'' ''text/plain''" by code_simp
  have c6: "\<not> includes_str ''application/octet-stream'' ''text/html''" by code_simp
  have c7: "includes_str ''application/octet-stream'' ''application/octet-stream''" by code_simp
  have c8: "\<not> includes_str ''image/png'' ''application/json''" by code_simp
  have c9: "\<not> includes_str ''image/png'' ''text/plain''" by code_simp
  have c10: "\<not> includes_str ''image/png'' ''text/html''" by code_simp
  have c11: "\<not> includes_str ''image/png'' ''application/octet-stream''" by code_simp
  have w1: "processResponse (jsonResponse 200) = Inr (Json None) \<and>
            parseResponse (jsonResponse 200) = Inr (Json None)"
    using body_parsing_strategy [of "jsonResponse 200", THEN conjunct1] c1
    by (simp add: jsonResponse_def)
  have w2: "parseResponse octetResponse = Inr (Text ''bytes'')"
    using body_parsing_strategy [of octetResponse, THEN conjunct2, THEN conjunct1] c2
    by (simp add: octetResponse_def)
  have w3: "processResponse ((jsonResponse 200)\<lparr>contentType := Some ''text/html; charset=utf-8''\<rparr>)
              = Inr (Text ''{}'')"
    using body_parsing_strategy
      [of "(jsonResponse 200)\<lparr>contentType := Some ''text/html; charset=utf-8''\<rparr>",
       THEN conjunct2, THEN conjunct2, THEN conjunct1] c3 c4
    by (simp add: jsonResponse_def)
  have w4: "processResponse octetResponse = Inr Blob"
    using body_parsing_strategy
      [of octetResponse, THEN conjunct2, THEN conjunct2, THEN conjunct2, THEN conjunct1]
      c2 c5 c6 c7
    by (simp add: octetResponse_def)
  have w5: "processResponse pngResponse = Inr RawResponse"
    using body_parsing_strategy
      [of pngResponse, THEN conjunct2, THEN conjunct2, THEN conjunct2, THEN conjunct2]
      c8 c9 c10 c11
    by (simp add: pngResponse_def)
  from w1 w2 w3 w4 w5 show ?thesis by simp
qed

text \<open>
  The claim as the specification words it fails twice. A response of an unrecognized
  content type is not parsed as text by \<^verbatim>\<open>processResponse\<close>: the response object is
  returned. And the parsing of \<^verbatim>\<open>client.js\<close> reads a body of the binary content type as
  text.
\<close>

theorem body_parsing_counterexample:
  "processResponse pngResponse \<noteq> textBody pngResponse \<and>
   parseResponse octetResponse \<noteq> blobBody octetResponse"
  by code_simp

section \<open>Properties of the requests\<close>

subsection \<open>The abort signal\<close>

lemma abortError_kind:
  "type (abortError e) = (if thrownMessage e = ''timeout'' then TIMEOUT else CANCELED)"
  by (simp add: abortError_def Let_def)

lemma apiRequest_abort:
  assumes "fetch 0 = Rejects x" and "name x = ''AbortError''"
  shows "apiRequest fetch n =
           Inl (ThrownApiError
             \<lparr>errorMessage = (if message x = ''timeout'' then ''Request timed out'' else ''Request canceled''),
              type = (if message x = ''timeout'' then TIMEOUT else CANCELED),
              statusCode = 0, data = OriginalError x\<rparr>)"
  using assms
  by (simp add: apiRequest_def executeRequest.simps [of fetch n 0] tryRequest_def abortError_def)

lemma timeout_aborts_own_signal: "abortsFetch TimeoutElapsed (requestSignal None)"
  by (simp add: abortsFetch_def requestSignal_def)

lemma caller_aborts_own_handle: "abortsFetch (CallerAborts h) (requestSignal (Some h))"
  by (simp add: abortsFetch_def requestSignal_def)

text \<open>
  Claim C6 says that, when the caller supplies a cancellation handle, the attempt is aborted
  by whichever of the timeout and the handle fires first. In the code, \<^verbatim>\<open>fetch\<close> is then
  given the caller's signal only: the timer aborts the controller's signal, which no fetch
  observes, so the elapsed timeout does not abort the attempt.
\<close>

theorem timeout_ignored_with_caller_signal:
  "requestSignal (Some (1::nat)) = CallerSignal 1 \<and>
   \<not> abortsFetch TimeoutElapsed (requestSignal (Some (1::nat))) \<and>
   abortsFetch (CallerAborts 1) (requestSignal (Some (1::nat)))"
  by (simp add: abortsFetch_def requestSignal_def)

subsection \<open>Retries\<close>

lemma apiRequest_terminal_status:
  assumes "fetch 0 = Resolves r" and "parseResponse r = Inr d"
    and "status r = 400 \<or> status r = 401 \<or> status r = 403 \<or> status r = 404 \<or> status r = 422"
  shows "apiRequest fetch n =
           Inl (ThrownApiError
             \<lparr>errorMessage = orElse (payloadMessage d) (orElse (statusText r) ''API request failed''),
              type = mapStatusToErrorType (status r), statusCode = status r, data = d\<rparr>)"
  using assms
  by (auto simp add: apiRequest_def executeRequest.simps [of fetch n 0] tryRequest_def ok_def
        shouldRetry_def mapStatusToErrorType_def)

lemma tryAttempt_terminal_status:
  assumes "status r = 400 \<or> status r = 401 \<or> status r = 403 \<or> status r = 404 \<or> status r = 422"
  shows "\<exists>a. tryAttempt ris (Resolves r) = Caught (HttpError a) \<and> apiStatus a = status r"
  using assms by (auto simp add: tryAttempt_def ok_def Let_def)

lemma catchError_ApiError: "catchError (HttpError a) = HttpError a"
  by (simp add: catchError_def)

lemma retryLoop_terminal_status:
  assumes "\<And>j. f j = Resolves r"
    and "status r = 400 \<or> status r = 401 \<or> status r = 403 \<or> status r = 404 \<or> status r = 422"
    and "int k \<le> m"
  shows "\<exists>a. retryLoop ris f m k le0 = LoopEnded (Some (HttpError a)) (nat m + 1)"
  using assms
proof (induction ris f m k le0 rule: retryLoop.induct)
  case (1 interceptors fetch retries attempt lastError)
  from tryAttempt_terminal_status [OF "1.prems"(2)] "1.prems"(1)
  obtain a where a: "tryAttempt interceptors (fetch attempt) = Caught (HttpError a)"
    by metis
  show ?case
  proof (cases "int attempt = retries")
    case True
    with a "1.prems"(3) show ?thesis
      by (subst retryLoop.simps) (auto simp add: catchError_ApiError)
  next
    case False
    with "1.prems"(3) have "int (attempt + 1) \<le> retries" by simp
    from "1.IH"(2) [OF "1.prems"(3) a False "1.prems"(1) "1.prems"(2) this]
    obtain b where "retryLoop interceptors fetch retries (attempt + 1) (Some (catchError (HttpError a)))
                      = LoopEnded (Some (HttpError b)) (nat retries + 1)"
      by blast
    with a False "1.prems"(3) show ?thesis
      by (subst retryLoop.simps) simp
  qed
qed

lemma request_terminal_status_fetches:
  assumes "\<And>j. f j = Resolves r"
    and "status r = 400 \<or> status r = 401 \<or> status r = 403 \<or> status r = 404 \<or> status r = 422"
    and "applyRequestInterceptors requestIs requestConfig = Inr config"
    and "0 \<le> retries config"
  shows "fetches (request requestIs responseIs errorIs requestConfig f) = nat (retries config) + 1"
proof -
  from retryLoop_terminal_status [where f = f and r = r and k = 0 and m = "retries config"
      and ris = responseIs and ?le0.0 = None] assms(1,2,4)
  obtain a where "retryLoop responseIs f (retries config) 0 None
                    = LoopEnded (Some (HttpError a)) (nat (retries config) + 1)"
    by auto
  with assms(3) show ?thesis
    by (simp add: request_def split: prod.splits chain_result.splits)
qed

text \<open>
  Claim C1 says that a response with status 400, 401, 403, 404 or 422 ends the request
  without a further attempt, whatever the retry count. In \<^verbatim>\<open>request\<close> the \<^verbatim>\<open>throw\<close> of
  line 289 is inside the \<^verbatim>\<open>try\<close> block, so the \<^verbatim>\<open>catch\<close> clause of the loop takes it and
  the loop goes on: with one retry configured and a server that answers 404, \<^verbatim>\<open>fetch\<close> is
  called twice before the error reaches the caller.
\<close>

theorem request_retries_terminal_status:
  "request [] [] [] (defaultConfig 1) (everyAttempt (Resolves (jsonResponse 404)))
     = \<lparr>result = RejectedWith (Some notFoundError), fetches = 2, errorCalls = []\<rparr>"
  by code_simp

subsection \<open>Exceptions of interceptors\<close>

lemma error_interceptor_exception_swallowed:
  assumes "interceptor currentError = Inl thrownError" and "error \<noteq> None"
  shows "errorInterceptorLoop error (interceptor # rest) currentError calls
           = errorInterceptorLoop error rest currentError (calls @ [currentError])"
  using assms by auto

lemma applyRequestInterceptors_throws:
  assumes "applyRequestInterceptors before c = Inr c'" and "interceptor c' = Inl e"
  shows "applyRequestInterceptors (before @ interceptor # after) c = Inl e"
  using assms
  by (induction before arbitrary: c) (auto split: sum.splits)

lemma request_interceptor_exception:
  assumes "applyRequestInterceptors before c = Inr c'" and "interceptor c' = Inl e"
  shows "request (before @ interceptor # after) responseIs errorIs c f
           = \<lparr>result = RejectedWith (Some e), fetches = 0, errorCalls = []\<rparr>"
  using applyRequestInterceptors_throws [where interceptor = interceptor, OF assms]
  by (simp add: request_def)

text \<open>
  Claim C5 says that in each of the three chains an exception thrown by an interceptor is
  caught and the chain continues with the value the interceptor received. The error chain
  does so; the request chain and the response chain have no handler. A request interceptor
  that throws makes \<^verbatim>\<open>request\<close> reject with its exception before any call of
  \<^verbatim>\<open>fetch\<close>; a response interceptor that throws makes a request whose response was
  received and parsed reject with its exception.
\<close>

theorem interceptor_exception_propagates:
  "request [throwingInterceptor] [] [] (defaultConfig 0) (everyAttempt (Resolves (jsonResponse 200)))
     = \<lparr>result = RejectedWith (Some boom), fetches = 0, errorCalls = []\<rparr> \<and>
   request [] [throwingInterceptor] [] (defaultConfig 0) (everyAttempt (Resolves (jsonResponse 200)))
     = \<lparr>result = RejectedWith (Some boom), fetches = 1, errorCalls = []\<rparr>"
  by code_simp

subsection \<open>The error interceptor chain\<close>

lemma errorInterceptorLoop_append:
  assumes "errorInterceptorLoop error before currentError calls = (Unhandled e, calls')"
  shows "errorInterceptorLoop error (before @ rest) currentError calls
           = errorInterceptorLoop error rest e calls'"
  using assms
proof (induction before arbitrary: currentError calls)
  case Nil
  then show ?case by simp
next
  case (Cons i before)
  then show ?case
    by (auto split: sum.splits interceptor_result.splits if_splits)
qed

lemma errorInterceptorLoop_calls:
  assumes "errorInterceptorLoop error before currentError calls = (Unhandled e, calls')"
  shows "length calls' = length calls + length before"
  using assms
proof (induction before arbitrary: currentError calls)
  case Nil
  then show ?case by simp
next
  case (Cons i before)
  then show ?case
    by (fastforce split: sum.splits interceptor_result.splits if_splits)
qed

text \<open>
  Claim C4. Let a request end in a terminal error: the request interceptors return, and the
  retry loop ends with \<open>lastError\<close>. Let the error interceptors registered before some
  interceptor hand it the error \<open>currentError\<close>, and let it return \<^verbatim>\<open>null\<close>. Then the chain
  returns \<^verbatim>\<open>null\<close>, the request resolves with \<^verbatim>\<open>null\<close> instead of throwing, and the
  interceptors invoked are those before it and itself: whatever is registered after it is
  not invoked.
\<close>

theorem error_interceptor_null_stops_chain:
  assumes "applyRequestInterceptors requestIs requestConfig = Inr config"
    and "retryLoop responseIs fetch (retries config) 0 None = LoopEnded lastError n"
    and "applyErrorInterceptors before lastError = (Unhandled currentError, calls)"
    and "interceptor currentError = Inr ReturnsNull"
  shows "applyErrorInterceptors (before @ interceptor # after) lastError
           = (Handled, calls @ [currentError]) \<and>
         request requestIs responseIs (before @ interceptor # after) requestConfig fetch
           = \<lparr>result = FulfilledNull, fetches = n, errorCalls = calls @ [currentError]\<rparr> \<and>
         length (calls @ [currentError]) = length before + 1"
proof -
  have pre: "errorInterceptorLoop lastError before lastError [] = (Unhandled currentError, calls)"
    using assms(3) by (simp add: applyErrorInterceptors_def)
  have chain: "applyErrorInterceptors (before @ interceptor # after) lastError
                 = (Handled, calls @ [currentError])"
    using errorInterceptorLoop_append [OF pre, of "interceptor # after"] assms(4)
    by (simp add: applyErrorInterceptors_def)
  have len: "length calls = length before"
    using errorInterceptorLoop_calls [OF pre] by simp
  have req: "request requestIs responseIs (before @ interceptor # after) requestConfig fetch
               = \<lparr>result = FulfilledNull, fetches = n, errorCalls = calls @ [currentError]\<rparr>"
    using assms(1,2) chain by (simp add: request_def)
  from chain req len show ?thesis by simp
qed

theorem error_interceptor_null_stops_chain_witness:
  "request [] [] [passingErrorInterceptor, loginErrorInterceptor False, throwingInterceptor]
     (defaultConfig 0) (everyAttempt (Resolves (jsonResponse 401)))
     = \<lparr>result = FulfilledNull, fetches = 1,
        errorCalls = [Some unauthorizedError, Some unauthorizedError]\<rparr>"
proof -
  have h1: "applyRequestInterceptors [] (defaultConfig 0) = Inr (defaultConfig 0)"
    by simp
  have h2: "retryLoop [] (everyAttempt (Resolves (jsonResponse 401))) (retries (defaultConfig 0)) 0 None
              = LoopEnded (Some unauthorizedError) 1"
    by code_simp
  have h3: "applyErrorInterceptors [passingErrorInterceptor] (Some unauthorizedError)
              = (Unhandled (Some unauthorizedError), [Some unauthorizedError])"
    by code_simp
  have h4: "loginErrorInterceptor False (Some unauthorizedError) = Inr ReturnsNull"
    by code_simp
  show ?thesis
    using error_interceptor_null_stops_chain
      [where interceptor = "loginErrorInterceptor False" and after = "[throwingInterceptor]",
       OF h1 h2 h3 h4]
    by simp
qed

subsection \<open>The errors that reach the caller\<close>

lemma executeRequest_throws_ApiError:
  "executeRequest fetch n k = Inl t \<Longrightarrow> isApiError t"
proof (induction fetch n k rule: executeRequest.induct)
  case (1 fetch retries currentRetry)
  from "1.prems" show ?case
    by (subst (asm) executeRequest.simps)
       (auto split: sum.splits thrown.splits if_splits intro: "1.IH")
qed

lemma retryLoop_count:
  "retryLoop ris f m k le0 = LoopEnded le n \<Longrightarrow> k \<le> n \<and> (n = k \<longrightarrow> le = le0)"
proof (induction ris f m k le0 rule: retryLoop.induct)
  case (1 interceptors fetch retries attempt lastError)
  from "1.prems" show ?case
    by (subst (asm) retryLoop.simps)
       (auto split: attempt_result.splits if_splits dest: "1.IH")
qed

lemma catchError_of_attempt:
  assumes "tryAttempt ris outcome = Caught e"
    and "case outcome of
           Rejects x \<Rightarrow> name x = ''AbortError'' \<or> (name x = ''TypeError'' \<and> message x = ''Failed to fetch'')
         | Resolves r \<Rightarrow> \<not> ok r"
  shows "isHttpApiError (Some (catchError e))"
proof (cases outcome)
  case (Rejects x)
  with assms show ?thesis by (auto simp add: tryAttempt_def catchError_def)
next
  case (Resolves r)
  with assms obtain a where "e = HttpError a"
    by (auto simp add: tryAttempt_def Let_def split: if_splits)
  then show ?thesis by (simp add: catchError_def)
qed

lemma retryLoop_lastError:
  assumes "retryLoop ris f m k le0 = LoopEnded le n" and "k < n"
    and "case f (n - 1) of
           Rejects x \<Rightarrow> name x = ''AbortError'' \<or> (name x = ''TypeError'' \<and> message x = ''Failed to fetch'')
         | Resolves r \<Rightarrow> \<not> ok r"
  shows "isHttpApiError le"
  using assms
proof (induction ris f m k le0 rule: retryLoop.induct)
  case (1 interceptors fetch retries attempt lastError)
  show ?case
  proof (cases "int attempt \<le> retries")
    case False
    with "1.prems"(1) have "n = attempt" by (subst (asm) retryLoop.simps) simp
    with "1.prems"(2) show ?thesis by simp
  next
    case True
    show ?thesis
    proof (cases "tryAttempt interceptors (fetch attempt)")
      case (Returned env)
      with True "1.prems"(1) show ?thesis by (subst (asm) retryLoop.simps) simp
    next
      case (Stored a)
      with True "1.prems"(1)
      have rec: "retryLoop interceptors fetch retries (attempt + 1) (Some (HttpError a)) = LoopEnded le n"
        by (subst (asm) retryLoop.simps) simp
      from retryLoop_count [OF rec] have c: "attempt + 1 \<le> n" "n = attempt + 1 \<longrightarrow> le = Some (HttpError a)"
        by auto
      show ?thesis
      proof (cases "n = attempt + 1")
        case True
        with c show ?thesis by simp
      next
        case False
        with c have "attempt + 1 < n" by simp
        from "1.IH"(1) [OF \<open>int attempt \<le> retries\<close> Stored rec this "1.prems"(3)]
        show ?thesis .
      qed
    next
      case (Caught e)
      show ?thesis
      proof (cases "int attempt = retries")
        case True
        with \<open>int attempt \<le> retries\<close> Caught "1.prems"(1)
        have "le = Some (catchError e)" "n = attempt + 1"
          by (subst (asm) retryLoop.simps, simp)+
        with Caught "1.prems"(3) show ?thesis
          using catchError_of_attempt [of interceptors "fetch attempt" e] by simp
      next
        case False
        with \<open>int attempt \<le> retries\<close> Caught "1.prems"(1)
        have rec: "retryLoop interceptors fetch retries (attempt + 1) (Some (catchError e)) = LoopEnded le n"
          by (subst (asm) retryLoop.simps) simp
        from retryLoop_count [OF rec]
        have c: "attempt + 1 \<le> n" "n = attempt + 1 \<longrightarrow> le = Some (catchError e)"
          by auto
        show ?thesis
        proof (cases "n = attempt + 1")
          case True
          with c Caught "1.prems"(3) show ?thesis
            using catchError_of_attempt [of interceptors "fetch attempt" e] by simp
        next
          case neq: False
          with c have "attempt + 1 < n" by simp
          from "1.IH"(2) [OF \<open>int attempt \<le> retries\<close> Caught False rec this "1.prems"(3)]
          show ?thesis .
        qed
      qed
    qed
  qed
qed

lemma retryLoop_last_attempt:
  assumes "retryLoop ris f m k le0 = LoopEnded le n" and "k < n"
  shows "(\<exists>a. tryAttempt ris (f (n - 1)) = Stored a \<and> le = Some (HttpError a)) \<or>
         (\<exists>x. tryAttempt ris (f (n - 1)) = Caught x \<and> le = Some (catchError x))"
  using assms
proof (induction ris f m k le0 rule: retryLoop.induct)
  case (1 interceptors fetch retries attempt lastError)
  show ?case
  proof (cases "int attempt \<le> retries")
    case False
    with "1.prems"(1) have "n = attempt" by (subst (asm) retryLoop.simps) simp
    with "1.prems"(2) show ?thesis by simp
  next
    case True
    show ?thesis
    proof (cases "tryAttempt interceptors (fetch attempt)")
      case (Returned env)
      with True "1.prems"(1) show ?thesis by (subst (asm) retryLoop.simps) simp
    next
      case (Stored a)
      with True "1.prems"(1)
      have rec: "retryLoop interceptors fetch retries (attempt + 1) (Some (HttpError a)) = LoopEnded le n"
        by (subst (asm) retryLoop.simps) simp
      from retryLoop_count [OF rec]
      have c: "attempt + 1 \<le> n" "n = attempt + 1 \<longrightarrow> le = Some (HttpError a)"
        by auto
      show ?thesis
      proof (cases "n = attempt + 1")
        case True
        with c Stored show ?thesis by simp
      next
        case False
        with c have "attempt + 1 < n" by simp
        from "1.IH"(1) [OF \<open>int attempt \<le> retries\<close> Stored rec this]
        show ?thesis .
      qed
    next
      case (Caught x)
      show ?thesis
      proof (cases "int attempt = retries")
        case True
        with \<open>int attempt \<le> retries\<close> Caught "1.prems"(1)
        have "le = Some (catchError x)" "n = attempt + 1"
          by (subst (asm) retryLoop.simps, simp)+
        with Caught show ?thesis by simp
      next
        case False
        with \<open>int attempt \<le> retries\<close> Caught "1.prems"(1)
        have rec: "retryLoop interceptors fetch retries (attempt + 1) (Some (catchError x)) = LoopEnded le n"
          by (subst (asm) retryLoop.simps) simp
        from retryLoop_count [OF rec]
        have c: "attempt + 1 \<le> n" "n = attempt + 1 \<longrightarrow> le = Some (catchError x)"
          by auto
        show ?thesis
        proof (cases "n = attempt + 1")
          case True
          with c Caught show ?thesis by simp
        next
          case neq: False
          with c have "attempt + 1 < n" by simp
          from "1.IH"(2) [OF \<open>int attempt \<le> retries\<close> Caught False rec this]
          show ?thesis .
        qed
      qed
    qed
  qed
qed

lemma catchError_other:
  assumes "httpName x \<noteq> ''AbortError''"
    and "\<not> (httpName x = ''TypeError'' \<and> httpMessage x = ''Failed to fetch'')"
  shows "catchError x = x"
  using assms by (auto simp add: catchError_def)

lemma retryLoop_lastError_other:
  assumes "retryLoop ris f m k le0 = LoopEnded le n" and "k < n"
    and "tryAttempt ris (f (n - 1)) = Caught x"
    and "httpName x \<noteq> ''AbortError''"
    and "\<not> (httpName x = ''TypeError'' \<and> httpMessage x = ''Failed to fetch'')"
  shows "le = Some x"
  using retryLoop_last_attempt [OF assms(1,2)] assms(3) catchError_other [OF assms(4,5)]
  by auto

lemma errorInterceptorLoop_passing:
  assumes "\<forall>i \<in> set errorIs. \<forall>x. i x = Inr (returnValue x)"
  shows "errorInterceptorLoop error errorIs currentError calls
           = (Unhandled currentError, calls @ replicate (length errorIs) currentError)"
  using assms
proof (induction errorIs arbitrary: calls)
  case Nil
  then show ?case by simp
next
  case (Cons i errorIs)
  then have i: "i currentError = Inr (returnValue currentError)" by simp
  from Cons have IH: "\<And>calls. errorInterceptorLoop error errorIs currentError calls
           = (Unhandled currentError, calls @ replicate (length errorIs) currentError)"
    by simp
  show ?case
    using i IH by (cases currentError) (simp_all add: replicate_append_same)
qed

lemma request_passing_interceptors:
  assumes "applyRequestInterceptors requestIs requestConfig = Inr config"
    and "retryLoop responseIs f (retries config) 0 None = LoopEnded lastError k"
    and "\<forall>i \<in> set errorIs. \<forall>x. i x = Inr (returnValue x)"
  shows "request requestIs responseIs errorIs requestConfig f
           = \<lparr>result = RejectedWith lastError, fetches = k,
              errorCalls = replicate (length errorIs) lastError\<rparr>"
  using assms(1,2) errorInterceptorLoop_passing [OF assms(3), of lastError lastError "[]"]
  by (simp add: request_def applyErrorInterceptors_def)

text \<open>
  Claim C2, as the code has it. Every failure \<^verbatim>\<open>apiRequest\<close> of \<^verbatim>\<open>client.js\<close> throws to its
  caller is an \<^verbatim>\<open>ApiError\<close>. In \<^verbatim>\<open>request\<close> of \<^verbatim>\<open>http.js\<close>, the error the retry loop
  hands to the error interceptor chain is decided by the last attempt made. When that attempt
  ended in an abort, in a \<^verbatim>\<open>TypeError\<close> with the message \<^verbatim>\<open>Failed to fetch\<close>, or in a
  response outside the 2xx range, it is an \<^verbatim>\<open>ApiError\<close> of that module (which has a status
  and no kind). When that attempt threw any other exception, it is that exception itself.
  Error interceptors that return the error they are given each receive that error, and it is
  what \<^verbatim>\<open>request\<close> then throws to the caller.
\<close>

theorem failures_are_ApiErrors:
  "(apiRequest fetch n = Inl t \<longrightarrow> isApiError t) \<and>
   (retryLoop responseIs fetch' m 0 None = LoopEnded lastError k \<and> 0 < k \<and>
    (case fetch' (k - 1) of
       Rejects x \<Rightarrow> name x = ''AbortError'' \<or> (name x = ''TypeError'' \<and> message x = ''Failed to fetch'')
     | Resolves r \<Rightarrow> \<not> ok r)
      \<longrightarrow> isHttpApiError lastError) \<and>
   (retryLoop responseIs fetch' m 0 None = LoopEnded lastError k \<and> 0 < k \<and>
    tryAttempt responseIs (fetch' (k - 1)) = Caught other \<and>
    httpName other \<noteq> ''AbortError'' \<and>
    \<not> (httpName other = ''TypeError'' \<and> httpMessage other = ''Failed to fetch'')
      \<longrightarrow> lastError = Some other) \<and>
   (applyRequestInterceptors requestIs requestConfig = Inr config \<and>
    retryLoop responseIs fetch' (retries config) 0 None = LoopEnded lastError k \<and>
    (\<forall>i \<in> set errorIs. \<forall>y. i y = Inr (returnValue y))
      \<longrightarrow> request requestIs responseIs errorIs requestConfig fetch'
            = \<lparr>result = RejectedWith lastError, fetches = k,
               errorCalls = replicate (length errorIs) lastError\<rparr>)"
proof -
  have a: "apiRequest fetch n = Inl t \<longrightarrow> isApiError t"
    using executeRequest_throws_ApiError [of fetch n 0 t] by (simp add: apiRequest_def)
  have b: "retryLoop responseIs fetch' m 0 None = LoopEnded lastError k \<and> 0 < k \<and>
    (case fetch' (k - 1) of
       Rejects x \<Rightarrow> name x = ''AbortError'' \<or> (name x = ''TypeError'' \<and> message x = ''Failed to fetch'')
     | Resolves r \<Rightarrow> \<not> ok r)
      \<longrightarrow> isHttpApiError lastError"
    using retryLoop_lastError [of responseIs fetch' m 0 None lastError k] by blast
  have c: "retryLoop responseIs fetch' m 0 None = LoopEnded lastError k \<and> 0 < k \<and>
    tryAttempt responseIs (fetch' (k - 1)) = Caught other \<and>
    httpName other \<noteq> ''AbortError'' \<and>
    \<not> (httpName other = ''TypeError'' \<and> httpMessage other = ''Failed to fetch'')
      \<longrightarrow> lastError = Some other"
    using retryLoop_lastError_other [of responseIs fetch' m 0 None lastError k other] by blast
  have d: "applyRequestInterceptors requestIs requestConfig = Inr config \<and>
    retryLoop responseIs fetch' (retries config) 0 None = LoopEnded lastError k \<and>
    (\<forall>i \<in> set errorIs. \<forall>y. i y = Inr (returnValue y))
      \<longrightarrow> request requestIs responseIs errorIs requestConfig fetch'
            = \<lparr>result = RejectedWith lastError, fetches = k,
               errorCalls = replicate (length errorIs) lastError\<rparr>"
    using request_passing_interceptors
      [of requestIs requestConfig config responseIs fetch' lastError k errorIs]
    by blast
  show ?thesis
    by (intro conjI) (rule a, rule b, rule c, rule d)
qed

theorem failures_are_ApiErrors_witness:
  "apiRequest (everyAttempt (Rejects \<lparr>name = ''TypeError'', message = ''Failed to fetch''\<rparr>)) 1
     = Inl (ThrownApiError
         \<lparr>errorMessage = ''Failed to fetch'', type = NETWORK, statusCode = 0,
          data = OriginalError \<lparr>name = ''TypeError'', message = ''Failed to fetch''\<rparr>\<rparr>) \<and>
   isApiError (ThrownApiError
         \<lparr>errorMessage = ''Failed to fetch'', type = NETWORK, statusCode = 0,
          data = OriginalError \<lparr>name = ''TypeError'', message = ''Failed to fetch''\<rparr>\<rparr>) \<and>
   retryLoop [] (everyAttempt (Rejects \<lparr>name = ''AbortError'', message = ''The operation was aborted''\<rparr>))
       1 0 None
     = LoopEnded (Some (HttpError
         \<lparr>apiMessage = ''Request timed out'', apiStatus = 408, apiData = Null,
          originalError = Some \<lparr>name = ''AbortError'', message = ''The operation was aborted''\<rparr>\<rparr>)) 2 \<and>
   isHttpApiError (Some (HttpError
         \<lparr>apiMessage = ''Request timed out'', apiStatus = 408, apiData = Null,
          originalError = Some \<lparr>name = ''AbortError'', message = ''The operation was aborted''\<rparr>\<rparr>)) \<and>
   retryLoop [] (everyAttempt (Resolves brokenJsonResponse)) 0 0 None
     = LoopEnded (Some (Exn \<lparr>name = ''SyntaxError'', message = ''Unexpected end of JSON input''\<rparr>)) 1 \<and>
   request [] [] [passingErrorInterceptor, passingErrorInterceptor] (defaultConfig 1)
       (everyAttempt (Rejects \<lparr>name = ''AbortError'', message = ''The operation was aborted''\<rparr>))
     = \<lparr>result = RejectedWith (Some (HttpError
         \<lparr>apiMessage = ''Request timed out'', apiStatus = 408, apiData = Null,
          originalError = Some \<lparr>name = ''AbortError'', message = ''The operation was aborted''\<rparr>\<rparr>)),
        fetches = 2,
        errorCalls = [Some (HttpError
         \<lparr>apiMessage = ''Request timed out'', apiStatus = 408, apiData = Null,
          originalError = Some \<lparr>name = ''AbortError'', message = ''The operation was aborted''\<rparr>\<rparr>),
          Some (HttpError
         \<lparr>apiMessage = ''Request timed out'', apiStatus = 408, apiData = Null,
          originalError = Some \<lparr>name = ''AbortError'', message = ''The operation was aborted''\<rparr>\<rparr>)]\<rparr>"
proof -
  have h1: "apiRequest (everyAttempt (Rejects \<lparr>name = ''TypeError'', message = ''Failed to fetch''\<rparr>)) 1
     = Inl (ThrownApiError
         \<lparr>errorMessage = ''Failed to fetch'', type = NETWORK, statusCode = 0,
          data = OriginalError \<lparr>name = ''TypeError'', message = ''Failed to fetch''\<rparr>\<rparr>)"
    by code_simp
  have h2: "retryLoop [] (everyAttempt (Rejects \<lparr>name = ''AbortError'', message = ''The operation was aborted''\<rparr>))
       1 0 None
     = LoopEnded (Some (HttpError
         \<lparr>apiMessage = ''Request timed out'', apiStatus = 408, apiData = Null,
          originalError = Some \<lparr>name = ''AbortError'', message = ''The operation was aborted''\<rparr>\<rparr>)) 2"
    by code_simp
  have h3: "case everyAttempt (Rejects \<lparr>name = ''AbortError'', message = ''The operation was aborted''\<rparr>) (2 - 1) of
       Rejects x \<Rightarrow> name x = ''AbortError'' \<or> (name x = ''TypeError'' \<and> message x = ''Failed to fetch'')
     | Resolves r \<Rightarrow> \<not> ok r"
    by (simp add: everyAttempt_def)
  from failures_are_ApiErrors [THEN conjunct1, rule_format, OF h1]
  have w1: "isApiError (ThrownApiError
         \<lparr>errorMessage = ''Failed to fetch'', type = NETWORK, statusCode = 0,
          data = OriginalError \<lparr>name = ''TypeError'', message = ''Failed to fetch''\<rparr>\<rparr>)" .
  have w2: "isHttpApiError (Some (HttpError
         \<lparr>apiMessage = ''Request timed out'', apiStatus = 408, apiData = Null,
          originalError = Some \<lparr>name = ''AbortError'', message = ''The operation was aborted''\<rparr>\<rparr>))"
    using failures_are_ApiErrors
      [where responseIs = "[]" and m = 1 and k = 2
         and fetch' = "everyAttempt (Rejects \<lparr>name = ''AbortError'', message = ''The operation was aborted''\<rparr>)",
       THEN conjunct2, THEN conjunct1, rule_format, OF conjI [OF h2 conjI [OF _ h3]]]
    by simp
  have h4: "tryAttempt [] (everyAttempt (Resolves brokenJsonResponse) (1 - 1))
              = Caught (Exn \<lparr>name = ''SyntaxError'', message = ''Unexpected end of JSON input''\<rparr>)"
    by code_simp
  have h5: "retryLoop [] (everyAttempt (Resolves brokenJsonResponse)) 0 0 None
              = LoopEnded (Some (catchError
                  (Exn \<lparr>name = ''SyntaxError'', message = ''Unexpected end of JSON input''\<rparr>))) 1"
    using h4 by (subst retryLoop.simps) simp
  have w3: "Some (catchError (Exn \<lparr>name = ''SyntaxError'', message = ''Unexpected end of JSON input''\<rparr>))
              = Some (Exn \<lparr>name = ''SyntaxError'', message = ''Unexpected end of JSON input''\<rparr>)"
    using failures_are_ApiErrors
      [where responseIs = "[]" and m = 0 and k = 1
         and fetch' = "everyAttempt (Resolves brokenJsonResponse)"
         and other = "Exn \<lparr>name = ''SyntaxError'', message = ''Unexpected end of JSON input''\<rparr>",
       THEN conjunct2, THEN conjunct2, THEN conjunct1, rule_format,
       OF conjI [OF h5 conjI [OF _ conjI [OF h4]]]]
    by simp
  have h6: "applyRequestInterceptors [] (defaultConfig 1) = Inr (defaultConfig 1)"
    by simp
  have h7: "retryLoop [] (everyAttempt (Rejects \<lparr>name = ''AbortError'', message = ''The operation was aborted''\<rparr>))
       (retries (defaultConfig 1)) 0 None
     = LoopEnded (Some (HttpError
         \<lparr>apiMessage = ''Request timed out'', apiStatus = 408, apiData = Null,
          originalError = Some \<lparr>name = ''AbortError'', message = ''The operation was aborted''\<rparr>\<rparr>)) 2"
    using h2 by (simp add: defaultConfig_def)
  have h8: "\<forall>i \<in> set [passingErrorInterceptor, passingErrorInterceptor]. \<forall>y. i y = Inr (returnValue y)"
    by (simp add: passingErrorInterceptor_def)
  have w4: "request [] [] [passingErrorInterceptor, passingErrorInterceptor] (defaultConfig 1)
       (everyAttempt (Rejects \<lparr>name = ''AbortError'', message = ''The operation was aborted''\<rparr>))
     = \<lparr>result = RejectedWith (Some (HttpError
         \<lparr>apiMessage = ''Request timed out'', apiStatus = 408, apiData = Null,
          originalError = Some \<lparr>name = ''AbortError'', message = ''The operation was aborted''\<rparr>\<rparr>)),
        fetches = 2,
        errorCalls = [Some (HttpError
         \<lparr>apiMessage = ''Request timed out'', apiStatus = 408, apiData = Null,
          originalError = Some \<lparr>name = ''AbortError'', message = ''The operation was aborted''\<rparr>\<rparr>),
          Some (HttpError
         \<lparr>apiMessage = ''Request timed out'', apiStatus = 408, apiData = Null,
          originalError = Some \<lparr>name = ''AbortError'', message = ''The operation was aborted''\<rparr>\<rparr>)]\<rparr>"
    using failures_are_ApiErrors
      [where requestIs = "[]" and requestConfig = "defaultConfig 1" and config = "defaultConfig 1"
         and responseIs = "[]" and k = 2
         and errorIs = "[passingErrorInterceptor, passingErrorInterceptor]"
         and fetch' = "everyAttempt (Rejects \<lparr>name = ''AbortError'', message = ''The operation was aborted''\<rparr>)",
       THEN conjunct2, THEN conjunct2, THEN conjunct2, rule_format,
       OF conjI [OF h6 conjI [OF h7 h8]]]
    by simp
  from h5 w3 have w3': "retryLoop [] (everyAttempt (Resolves brokenJsonResponse)) 0 0 None
     = LoopEnded (Some (Exn \<lparr>name = ''SyntaxError'', message = ''Unexpected end of JSON input''\<rparr>)) 1"
    by simp
  from h1 w1 h2 w2 w3' w4 show ?thesis by blast
qed

text \<open>
  The claim as the specification words it fails in \<^verbatim>\<open>http.js\<close>: the \<^verbatim>\<open>catch\<close> clause of
  the loop keeps any exception that is neither an abort nor a \<^verbatim>\<open>Failed to fetch\<close> error
  as it is. A response with status 200 whose body is not valid JSON makes
  \<^verbatim>\<open>response.json()\<close> reject with a \<^verbatim>\<open>SyntaxError\<close>; that exception is passed to the error
  interceptor and thrown to the caller.
\<close>

theorem raw_exception_counterexample:
  "request [] [] [passingErrorInterceptor] (defaultConfig 0) (everyAttempt (Resolves brokenJsonResponse))
     = \<lparr>result = RejectedWith
          (Some (Exn \<lparr>name = ''SyntaxError'', message = ''Unexpected end of JSON input''\<rparr>)),
        fetches = 1,
        errorCalls = [Some (Exn \<lparr>name = ''SyntaxError'', message = ''Unexpected end of JSON input''\<rparr>)]\<rparr> \<and>
   \<not> isHttpApiError (Some (Exn \<lparr>name = ''SyntaxError'', message = ''Unexpected end of JSON input''\<rparr>))"
  by code_simp

end
